theory Spec2Isabelle
  imports Main "HOL-Library.Sublist" "HOL-Library.Word"
begin

section \<open>Python exceptions and HTTP errors as values\<close>

text \<open>
  Every \<^verbatim>\<open>raise\<close> of the modelled sources is a value of this type, returned as
  \<open>Inl\<close> of a sum. \<open>HTTPException\<close> carries the status code and the detail text of
  FastAPI's exception.
\<close>

datatype py_error =
    ValueError string
  | UnsupportedTypeError string
  | AssertionError string
  | FileNotFoundError
  | StopIteration
  | ValidationError string
  | HTTPException nat string

fun is_UnsupportedTypeError :: "py_error + 'a \<Rightarrow> bool" where
  "is_UnsupportedTypeError (Inl (UnsupportedTypeError m)) = True"
| "is_UnsupportedTypeError r = False"

section \<open>Type dispatcher: \<^verbatim>\<open>opsml/registry/data/types.py\<close>\<close>

text \<open>
  What the dispatcher reads of an object is its class: the module and qualified name of
  \<^verbatim>\<open>object_.__class__\<close> and, for \<^verbatim>\<open>isinstance\<close>, the classes of its method
  resolution order, each written by its fully qualified name.
\<close>

record pyobj =
  cls_module :: string
  cls_qualname :: string
  cls_mro :: "string list"

definition isinstance :: "pyobj \<Rightarrow> string \<Rightarrow> bool" where
  "isinstance data c = (c \<in> set (cls_mro data))"

definition get_class_name :: "pyobj \<Rightarrow> string" where
  "get_class_name obj =
     (if cls_module obj = ''builtins'' then cls_qualname obj
      else cls_module obj @ ''.'' @ cls_qualname obj)"

text \<open>\<^verbatim>\<open>str(type(data))\<close>: the class name between \<^verbatim>\<open><class '\<close> and \<^verbatim>\<open>'>\<close>.\<close>

definition str_type :: "pyobj \<Rightarrow> string" where
  "str_type data = ''<class '' @ [CHR 0x27] @ get_class_name data @ [CHR 0x27] @ ''>''"

datatype AllowedDataType =
    PANDAS | PYARROW | POLARS | NUMPY | IMAGE | DICT | SQL | PROFILE
  | TRANSFORMER_BATCH | STRING | TORCH_TENSOR | TENSORFLOW_TENSOR

fun AllowedDataType_value :: "AllowedDataType \<Rightarrow> string" where
  "AllowedDataType_value PANDAS = ''pandas.core.frame.DataFrame''"
| "AllowedDataType_value PYARROW = ''pyarrow.lib.Table''"
| "AllowedDataType_value POLARS = ''polars.dataframe.frame.DataFrame''"
| "AllowedDataType_value NUMPY = ''numpy.ndarray''"
| "AllowedDataType_value IMAGE = ''ImageDataset''"
| "AllowedDataType_value DICT = ''dict''"
| "AllowedDataType_value SQL = ''sql''"
| "AllowedDataType_value PROFILE = ''profile''"
| "AllowedDataType_value TRANSFORMER_BATCH = ''transformers.tokenization_utils_base.BatchEncoding''"
| "AllowedDataType_value STRING = ''str''"
| "AllowedDataType_value TORCH_TENSOR = ''torch.Tensor''"
| "AllowedDataType_value TENSORFLOW_TENSOR = ''tensorflow.python.framework.ops.EagerTensor''"

text \<open>The classes the \<^verbatim>\<open>isinstance\<close> tests name.\<close>

definition cls_dict :: string where "cls_dict = ''dict''"
definition cls_ImageDataset :: string where
  "cls_ImageDataset = ''opsml.registry.image.dataset.ImageDataset''"
definition cls_ndarray :: string where "cls_ndarray = ''numpy.ndarray''"
definition cls_pd_DataFrame :: string where "cls_pd_DataFrame = ''pandas.core.frame.DataFrame''"
definition cls_pl_DataFrame :: string where
  "cls_pl_DataFrame = ''polars.dataframe.frame.DataFrame''"
definition cls_pa_Table :: string where "cls_pa_Table = ''pyarrow.lib.Table''"
definition cls_str :: string where "cls_str = ''str''"

text \<open>The message of the final \<^verbatim>\<open>raise\<close>, an f-string over three source lines.\<close>

definition unsupported_message :: "pyobj \<Rightarrow> string" where
  "unsupported_message data =
     ''Data must be one of the following types: numpy array, pandas dataframe, '' @ [CHR 0x0A]
     @ ''        polars dataframe, pyarrow table, or ImageDataset. Received '' @ str_type data
     @ [CHR 0x0A] @ ''        ''"

definition check_data_type :: "pyobj \<Rightarrow> py_error + string" where
  "check_data_type data =
     (let class_name = get_class_name data in
      if isinstance data cls_dict then Inr (AllowedDataType_value DICT)
      else if isinstance data cls_ImageDataset then Inr (AllowedDataType_value IMAGE)
      else if isinstance data cls_ndarray then Inr (AllowedDataType_value NUMPY)
      else if isinstance data cls_pd_DataFrame then Inr (AllowedDataType_value PANDAS)
      else if isinstance data cls_pl_DataFrame then Inr (AllowedDataType_value POLARS)
      else if isinstance data cls_pa_Table then Inr (AllowedDataType_value PYARROW)
      else if isinstance data cls_str then Inr (AllowedDataType_value STRING)
      else if class_name = AllowedDataType_value TRANSFORMER_BATCH
        then Inr (AllowedDataType_value TRANSFORMER_BATCH)
      else if class_name = AllowedDataType_value TORCH_TENSOR
        then Inr (AllowedDataType_value TORCH_TENSOR)
      else if class_name = AllowedDataType_value TENSORFLOW_TENSOR
        then Inr (AllowedDataType_value TENSORFLOW_TENSOR)
      else Inl (ValueError (unsupported_message data)))"

subsection \<open>The dispatcher's checks as a list\<close>

text \<open>
  A check of the dispatcher is either a structural \<^verbatim>\<open>isinstance\<close> test or a comparison
  of the class name (the named-class fallbacks). \<open>dispatch_order\<close> lists the checks of
  \<open>check_data_type\<close> from top to bottom with the tag each returns; \<open>claimed_order\<close>
  is the order the specification words: dict, ndarray, the dataframe variants, arrow
  table, string, the named-class fallbacks.
\<close>

datatype classifier = IsInstance string | ClassNameIs string

fun matches :: "classifier \<Rightarrow> pyobj \<Rightarrow> bool" where
  "matches (IsInstance c) data = isinstance data c"
| "matches (ClassNameIs n) data = (get_class_name data = n)"

definition dispatch_order :: "(classifier \<times> AllowedDataType) list" where
  "dispatch_order =
     [(IsInstance cls_dict, DICT),
      (IsInstance cls_ImageDataset, IMAGE),
      (IsInstance cls_ndarray, NUMPY),
      (IsInstance cls_pd_DataFrame, PANDAS),
      (IsInstance cls_pl_DataFrame, POLARS),
      (IsInstance cls_pa_Table, PYARROW),
      (IsInstance cls_str, STRING),
      (ClassNameIs (AllowedDataType_value TRANSFORMER_BATCH), TRANSFORMER_BATCH),
      (ClassNameIs (AllowedDataType_value TORCH_TENSOR), TORCH_TENSOR),
      (ClassNameIs (AllowedDataType_value TENSORFLOW_TENSOR), TENSORFLOW_TENSOR)]"

definition claimed_order :: "(classifier \<times> AllowedDataType) list" where
  "claimed_order =
     [(IsInstance cls_dict, DICT),
      (IsInstance cls_ndarray, NUMPY),
      (IsInstance cls_pd_DataFrame, PANDAS),
      (IsInstance cls_pl_DataFrame, POLARS),
      (IsInstance cls_pa_Table, PYARROW),
      (IsInstance cls_str, STRING),
      (ClassNameIs (AllowedDataType_value TRANSFORMER_BATCH), TRANSFORMER_BATCH),
      (ClassNameIs (AllowedDataType_value TORCH_TENSOR), TORCH_TENSOR),
      (ClassNameIs (AllowedDataType_value TENSORFLOW_TENSOR), TENSORFLOW_TENSOR)]"

text \<open>The tag of the earliest check of an order that the object satisfies.\<close>

fun earliest_match :: "(classifier \<times> AllowedDataType) list \<Rightarrow> pyobj \<Rightarrow> AllowedDataType option" where
  "earliest_match [] data = None"
| "earliest_match ((c, t) # rest) data =
     (if matches c data then Some t else earliest_match rest data)"

definition no_classifier_matches :: "pyobj \<Rightarrow> bool" where
  "no_classifier_matches data = (earliest_match dispatch_order data = None)"

text \<open>Objects used as concrete inputs.\<close>

definition int_object :: pyobj where
  "int_object = \<lparr>cls_module = ''builtins'', cls_qualname = ''int'',
                  cls_mro = [''int'', ''object'']\<rparr>"

text \<open>
  A subclass of \<^verbatim>\<open>dict\<close> declared with \<^verbatim>\<open>__module__ = "torch"\<close> and the name
  \<^verbatim>\<open>Tensor\<close>: it satisfies the dict check and the named-class check for
  \<^verbatim>\<open>torch.Tensor\<close>.
\<close>

definition dict_tensor_object :: pyobj where
  "dict_tensor_object = \<lparr>cls_module = ''torch'', cls_qualname = ''Tensor'',
                         cls_mro = [''torch.Tensor'', ''dict'', ''object'']\<rparr>"

text \<open>
  Two subclasses of \<^verbatim>\<open>ImageDataset\<close> (a pydantic model): one declared with
  \<^verbatim>\<open>__module__ = "torch"\<close> and the name \<^verbatim>\<open>Tensor\<close>, one that also derives from
  the pandas \<^verbatim>\<open>DataFrame\<close>.
\<close>

definition image_tensor_object :: pyobj where
  "image_tensor_object = \<lparr>cls_module = ''torch'', cls_qualname = ''Tensor'',
                          cls_mro = [''torch.Tensor'', ''opsml.registry.image.dataset.ImageDataset'',
                                     ''pydantic.main.BaseModel'', ''object'']\<rparr>"

definition image_frame_object :: pyobj where
  "image_frame_object = \<lparr>cls_module = ''__main__'', cls_qualname = ''ImageFrame'',
                         cls_mro = [''__main__.ImageFrame'', ''opsml.registry.image.dataset.ImageDataset'',
                                    ''pydantic.main.BaseModel'', ''pandas.core.frame.DataFrame'',
                                    ''object'']\<rparr>"

section \<open>Formatter: \<^verbatim>\<open>opsml_data/registry/formatter.py\<close>\<close>

text \<open>
  A column is its name, the string of its type and its cells. A pandas frame has an
  implicit row index beside its columns; an arrow table has columns only; a numpy array
  has an element dtype (as \<^verbatim>\<open>str(data.dtype)\<close> renders it), a shape and its elements.
  The cell type \<open>'v\<close> is left open.
\<close>

type_synonym 'v column = "string \<times> string \<times> 'v list"

record 'v pd_DataFrame =
  pd_index :: "'v list"
  pd_columns :: "'v column list"

record 'v pa_Table =
  pa_columns :: "'v column list"

record 'v np_ndarray =
  np_dtype :: string
  np_shape :: "nat list"
  np_elements :: "'v list"

datatype 'v py_data =
    PandasData "'v pd_DataFrame"
  | NumpyData "'v np_ndarray"
  | ArrowData "'v pa_Table"
  | OtherData string

text \<open>The \<^verbatim>\<open>ArrowTable\<close> model the formatter fills in.\<close>

record 'v ArrowTable =
  table :: "'v py_data"
  table_type :: string
  storage_uri :: "string option"
  feature_map :: "(string \<rightharpoonup> string option) option"

text \<open>\<^verbatim>\<open>data.__class__.__name__\<close>.\<close>

fun class_name_of :: "'v py_data \<Rightarrow> string" where
  "class_name_of (PandasData d) = ''DataFrame''"
| "class_name_of (NumpyData a) = ''ndarray''"
| "class_name_of (ArrowData t) = ''Table''"
| "class_name_of (OtherData n) = n"

text \<open>
  \<^verbatim>\<open>pa.Table.from_pandas(data, preserve_index=False)\<close> of pyarrow: the columns in
  their order, the index left out; \<open>arrow_type\<close> is pyarrow's translation of a pandas
  dtype, a parameter here.
\<close>

definition from_pandas :: "(string \<Rightarrow> string) \<Rightarrow> 'v pd_DataFrame \<Rightarrow> 'v pa_Table" where
  "from_pandas arrow_type df =
     \<lparr>pa_columns = map (\<lambda>(n, t, vs). (n, arrow_type t, vs)) (pd_columns df)\<rparr>"

text \<open>
  The three formatters, in the order of their definition. \<^verbatim>\<open>PandasFormatter.convert\<close>
  hands its argument to \<^verbatim>\<open>from_pandas\<close>, so it is modelled on frames.
\<close>

definition PandasFormatter_convert :: "(string \<Rightarrow> string) \<Rightarrow> 'v pd_DataFrame \<Rightarrow> 'v ArrowTable" where
  "PandasFormatter_convert arrow_type df =
     \<lparr>table = ArrowData (from_pandas arrow_type df),
      table_type = class_name_of (PandasData df), storage_uri = None, feature_map = None\<rparr>"

definition PandasFormatter_validate_data :: "'v py_data \<Rightarrow> bool" where
  "PandasFormatter_validate_data data = (case data of PandasData df \<Rightarrow> True | _ \<Rightarrow> False)"

definition NumpyFormatter_convert :: "'v py_data \<Rightarrow> 'v ArrowTable" where
  "NumpyFormatter_convert data =
     \<lparr>table = data, table_type = class_name_of data, storage_uri = None, feature_map = None\<rparr>"

definition NumpyFormatter_validate_data :: "'v py_data \<Rightarrow> bool" where
  "NumpyFormatter_validate_data data = (case data of NumpyData a \<Rightarrow> True | _ \<Rightarrow> False)"

definition ArrowTableFormatter_convert :: "'v py_data \<Rightarrow> 'v ArrowTable" where
  "ArrowTableFormatter_convert data =
     \<lparr>table = data, table_type = class_name_of data, storage_uri = None, feature_map = None\<rparr>"

definition ArrowTableFormatter_validate_data :: "'v py_data \<Rightarrow> bool" where
  "ArrowTableFormatter_validate_data data = (case data of ArrowData t \<Rightarrow> True | _ \<Rightarrow> False)"

text \<open>
  \<^verbatim>\<open>DataFormatter.convert_data_to_arrow\<close>: \<^verbatim>\<open>next\<close> over the subclasses of
  \<^verbatim>\<open>ArrowFormatter\<close> takes the first whose \<^verbatim>\<open>validate_data\<close> accepts the data and
  raises \<^verbatim>\<open>StopIteration\<close> when none does. The inner \<open>case\<close> unpacks the frame that
  \<open>PandasFormatter_validate_data\<close> has recognised.
\<close>

definition convert_data_to_arrow :: "(string \<Rightarrow> string) \<Rightarrow> 'v py_data \<Rightarrow> py_error + 'v ArrowTable" where
  "convert_data_to_arrow arrow_type data =
     (if PandasFormatter_validate_data data then
        (case data of PandasData df \<Rightarrow> Inr (PandasFormatter_convert arrow_type df)
         | _ \<Rightarrow> Inl StopIteration)
      else if NumpyFormatter_validate_data data then Inr (NumpyFormatter_convert data)
      else if ArrowTableFormatter_validate_data data then Inr (ArrowTableFormatter_convert data)
      else Inl StopIteration)"

text \<open>
  \<^verbatim>\<open>DataFormatter.create_table_schema\<close>: the loop over
  \<^verbatim>\<open>zip(schema.names, schema.types)\<close> stores each column's type under its name, a later
  column of the same name overwriting an earlier one.
\<close>

fun schema_loop :: "(string \<rightharpoonup> string option) \<Rightarrow> 'v column list \<Rightarrow> (string \<rightharpoonup> string option)" where
  "schema_loop fm [] = fm"
| "schema_loop fm ((feature, ty, vs) # cols) = schema_loop (fm(feature \<mapsto> Some ty)) cols"

definition create_table_schema :: "'v py_data \<Rightarrow> (string \<rightharpoonup> string option)" where
  "create_table_schema data =
     (case data of
        ArrowData t \<Rightarrow> schema_loop Map.empty (pa_columns t)
      | NumpyData a \<Rightarrow> Map.empty(''numpy_dtype'' \<mapsto> Some (np_dtype a))
      | _ \<Rightarrow> Map.empty(''data_dtype'' \<mapsto> None))"

definition float64_array :: "nat np_ndarray" where
  "float64_array = \<lparr>np_dtype = ''float64'', np_shape = [2], np_elements = [1, 2]\<rparr>"

section \<open>Model download route: \<^verbatim>\<open>opsml/app/routes/artifacts_routes.py\<close>\<close>

type_synonym byte = "8 word"

definition CHUNK_SIZE :: nat where "CHUNK_SIZE = 31457280"

record DownloadModelRequest =
  req_name :: "string option"
  req_version :: "string option"
  req_team :: "string option"
  req_uid :: "string option"

text \<open>
  A card row is a dictionary; the route reads it with \<^verbatim>\<open>.get("onnx_model_uri")\<close> only,
  so its values are kept as strings.
\<close>

type_synonym card = "string \<rightharpoonup> string"

record StreamingResponse =
  body_iterator :: "byte list list"
  headers :: "(string \<times> string) list"

text \<open>\<^verbatim>\<open>str(error)\<close> of an exception: its message.\<close>

fun str_error :: "py_error \<Rightarrow> string" where
  "str_error (ValueError m) = m"
| "str_error (UnsupportedTypeError m) = m"
| "str_error (AssertionError m) = m"
| "str_error FileNotFoundError = []"
| "str_error StopIteration = []"
| "str_error (ValidationError m) = m"
| "str_error (HTTPException c m) = m"

definition HTTP_500_INTERNAL_SERVER_ERROR :: nat where "HTTP_500_INTERNAL_SERVER_ERROR = 500"
definition HTTP_422_UNPROCESSABLE_ENTITY :: nat where "HTTP_422_UNPROCESSABLE_ENTITY = 422"
definition HTTP_413_REQUEST_ENTITY_TOO_LARGE :: nat where "HTTP_413_REQUEST_ENTITY_TOO_LARGE = 413"

definition is_4xx :: "nat \<Rightarrow> bool" where
  "is_4xx code = (400 \<le> code \<and> code < 500)"

definition is_5xx :: "nat \<Rightarrow> bool" where
  "is_5xx code = (500 \<le> code \<and> code < 600)"

text \<open>The status code a route answers with: 200 for a returned response.\<close>

fun status_code :: "py_error + 'a \<Rightarrow> nat" where
  "status_code (Inl (HTTPException code detail)) = code"
| "status_code (Inl e) = 500"
| "status_code (Inr r) = 200"

text \<open>
  \<^verbatim>\<open>download_model\<close>. Its surroundings are parameters: \<open>list_cards\<close> is the model
  registry's lookup for the request, \<open>iterfile_of\<close> the storage client's chunked reader
  (an exception of the call is an \<open>Inl\<close>), \<open>model_file\<close> the constant
  \<^verbatim>\<open>MODEL_FILE\<close> of \<^verbatim>\<open>opsml.app.routes.utils\<close>.
\<close>

definition download_model ::
  "(DownloadModelRequest \<Rightarrow> card list) \<Rightarrow> (string option \<Rightarrow> nat \<Rightarrow> py_error + byte list list)
   \<Rightarrow> string \<Rightarrow> DownloadModelRequest \<Rightarrow> py_error + StreamingResponse" where
  "download_model list_cards iterfile_of model_file payload =
     (let cards = list_cards payload in
      if length cards > 1 then
        Inl (HTTPException HTTP_500_INTERNAL_SERVER_ERROR ''More than one model found'')
      else if cards = [] then
        Inl (HTTPException HTTP_500_INTERNAL_SERVER_ERROR ''No model found'')
      else
        let hdrs = [(''Content-Disposition'',
                     ''attachment; filename='' @ [CHR 0x22] @ model_file @ [CHR 0x22])];
            record = (hd cards) ''onnx_model_uri''
        in case iterfile_of record CHUNK_SIZE of
             Inr chunks \<Rightarrow> Inr \<lparr>body_iterator = chunks, headers = hdrs\<rparr>
           | Inl error \<Rightarrow>
               Inl (HTTPException HTTP_500_INTERNAL_SERVER_ERROR
                      (''Error downloading model. '' @ str_error error)))"

definition missing_model_request :: DownloadModelRequest where
  "missing_model_request = \<lparr>req_name = Some ''no-such-model'', req_version = None,
                             req_team = Some ''team'', req_uid = None\<rparr>"

section \<open>Chunked reading of a stored file\<close>

text \<open>
  Modelled from the spec: the storage client's \<^verbatim>\<open>iterfile(path, chunk_size)\<close>, which is
  not among the sources (only its calls in \<^verbatim>\<open>artifacts_routes.py\<close> are). The
  specification asks for a finite sequence of chunks of at most \<open>chunk_size\<close> bytes
  each whose total length is the file size: the file is read front to back,
  \<open>chunk_size\<close> bytes at a time, until a read returns nothing. The store is a map from
  paths to file contents.
\<close>

function read_chunks :: "byte list \<Rightarrow> nat \<Rightarrow> byte list list" where
  "read_chunks content chunk_size =
     (if chunk_size = 0 \<or> content = [] then []
      else take chunk_size content # read_chunks (drop chunk_size content) chunk_size)"
  by pat_completeness auto
termination
  by (relation "measure (\<lambda>(content, chunk_size). length content)") auto

declare read_chunks.simps [simp del]

definition iterfile :: "(string \<rightharpoonup> byte list) \<Rightarrow> string \<Rightarrow> nat \<Rightarrow> py_error + byte list list" where
  "iterfile store file_path chunk_size =
     (case store file_path of
        None \<Rightarrow> Inl FileNotFoundError
      | Some content \<Rightarrow> Inr (read_chunks content chunk_size))"

section \<open>Data splitter\<close>

text \<open>
  Modelled from the spec: \<^verbatim>\<open>DataSplit\<close> and \<^verbatim>\<open>DataSplitterBase\<close> of
  \<^verbatim>\<open>opsml.registry.data.splitter\<close>, which is not among the sources (only
  \<^verbatim>\<open>tests/test_utils/test_splitter.py\<close> is). A split specification is one of three
  variants: column-predicate \<open>{label, column, column_value}\<close>, range
  \<open>{label, start, stop}\<close>, explicit indices \<open>{label, indices}\<close>. A splitter holds a
  split and the dependent variables; each of its properties \<^verbatim>\<open>column_name\<close>,
  \<^verbatim>\<open>column_value\<close>, \<^verbatim>\<open>start\<close>, \<^verbatim>\<open>stop\<close>, \<^verbatim>\<open>indices\<close> returns the field of the
  variant it belongs to and fails with \<^verbatim>\<open>ValueError\<close> on the other variants.
\<close>

datatype 'v DataSplit =
    ColumnSplit string string 'v
  | RangeSplit string int int
  | IndicesSplit string "int list"

record 'v DataSplitterBase =
  split :: "'v DataSplit"
  dependent_vars :: "string list"

datatype split_variant = ColumnVariant | RangeVariant | IndicesVariant

fun variant_of :: "'v DataSplit \<Rightarrow> split_variant" where
  "variant_of (ColumnSplit l c v) = ColumnVariant"
| "variant_of (RangeSplit l a b) = RangeVariant"
| "variant_of (IndicesSplit l ixs) = IndicesVariant"

datatype split_property = Column_name | Column_value | Start | Stop | Indices

fun property_variant :: "split_property \<Rightarrow> split_variant" where
  "property_variant Column_name = ColumnVariant"
| "property_variant Column_value = ColumnVariant"
| "property_variant Start = RangeVariant"
| "property_variant Stop = RangeVariant"
| "property_variant Indices = IndicesVariant"

datatype 'v property_value = NameOf string | CellOf 'v | BoundOf int | IndexList "int list"

definition column_name :: "'v DataSplitterBase \<Rightarrow> py_error + 'v property_value" where
  "column_name s = (case split s of ColumnSplit l c v \<Rightarrow> Inr (NameOf c)
                    | _ \<Rightarrow> Inl (ValueError ''Column name was not provided''))"

definition column_value :: "'v DataSplitterBase \<Rightarrow> py_error + 'v property_value" where
  "column_value s = (case split s of ColumnSplit l c v \<Rightarrow> Inr (CellOf v)
                     | _ \<Rightarrow> Inl (ValueError ''Column value was not provided''))"

definition start :: "'v DataSplitterBase \<Rightarrow> py_error + 'v property_value" where
  "start s = (case split s of RangeSplit l a b \<Rightarrow> Inr (BoundOf a)
              | _ \<Rightarrow> Inl (ValueError ''Start index was not provided''))"

definition stop :: "'v DataSplitterBase \<Rightarrow> py_error + 'v property_value" where
  "stop s = (case split s of RangeSplit l a b \<Rightarrow> Inr (BoundOf b)
             | _ \<Rightarrow> Inl (ValueError ''Stop index was not provided''))"

definition indices :: "'v DataSplitterBase \<Rightarrow> py_error + 'v property_value" where
  "indices s = (case split s of IndicesSplit l ixs \<Rightarrow> Inr (IndexList ixs)
                | _ \<Rightarrow> Inl (ValueError ''List of indices was not provided''))"

fun access :: "split_property \<Rightarrow> 'v DataSplitterBase \<Rightarrow> py_error + 'v property_value" where
  "access Column_name s = column_name s"
| "access Column_value s = column_value s"
| "access Start s = start s"
| "access Stop s = stop s"
| "access Indices s = indices s"

fun raises_ValueError :: "py_error + 'a \<Rightarrow> bool" where
  "raises_ValueError (Inl (ValueError m)) = True"
| "raises_ValueError r = False"

text \<open>The two splitters of \<^verbatim>\<open>test_base_splitter\<close>.\<close>

definition test_indices_splitter :: "nat DataSplitterBase" where
  "test_indices_splitter = \<lparr>split = IndicesSplit ''train'' [0, 2], dependent_vars = []\<rparr>"

definition test_range_splitter :: "nat DataSplitterBase" where
  "test_range_splitter = \<lparr>split = RangeSplit ''train'' 0 1, dependent_vars = []\<rparr>"

section \<open>Project identifiers: \<^verbatim>\<open>opsml/projects/base/types.py\<close>\<close>

text \<open>
  A Python \<^verbatim>\<open>str\<close> is a list of Unicode code points. \<open>ustr\<close> reads an ASCII literal
  as such a list.
\<close>

type_synonym ustring = "nat list"

definition ustr :: "string \<Rightarrow> ustring" where
  "ustr s = map of_char s"

text \<open>
  \<^verbatim>\<open>str.strip()\<close> removes whitespace from both ends. \<open>isspace\<close> lists every code
  point Python counts as whitespace: U+0009 to U+000D, U+001C to U+0020, U+0085,
  U+00A0, U+1680, U+2000 to U+200A, U+2028, U+2029, U+202F, U+205F, U+3000.
\<close>

definition isspace :: "nat \<Rightarrow> bool" where
  "isspace n =
     ((9 \<le> n \<and> n \<le> 13) \<or> (28 \<le> n \<and> n \<le> 32) \<or> n = 133 \<or> n = 160 \<or> n = 5760
      \<or> (8192 \<le> n \<and> n \<le> 8202) \<or> n = 8232 \<or> n = 8233 \<or> n = 8239 \<or> n = 8287
      \<or> n = 12288)"

definition strip :: "ustring \<Rightarrow> ustring" where
  "strip s = rev (dropWhile isspace (rev (dropWhile isspace s)))"

text \<open>
  \<^verbatim>\<open>str.lower()\<close> and \<^verbatim>\<open>str.isupper()\<close> read the Unicode character database. The
  rows of it that the model holds: for a code point, whether it is an uppercase letter,
  and its lowercase mapping. These are all code points below 256 (the capitals A to Z
  and U+00C0 to U+00DE without U+00D7, each 32 below its lowercase letter), the Greek
  pair U+0391 and U+03B1, and U+03D2, an uppercase letter that has no lowercase letter
  and is its own mapping. For any other code point the model has no row, and
  \<open>lower\<close> of a string with such a code point is \<open>None\<close>: the model says
  nothing about it.
\<close>

definition latin1_capital :: "nat \<Rightarrow> bool" where
  "latin1_capital n = ((65 \<le> n \<and> n \<le> 90) \<or> (192 \<le> n \<and> n \<le> 222 \<and> n \<noteq> 215))"

definition unicode_row :: "nat \<Rightarrow> (bool \<times> nat) option" where
  "unicode_row n =
     (if n < 256 then Some (latin1_capital n, if latin1_capital n then n + 32 else n)
      else if n = 913 then Some (True, 945)
      else if n = 945 then Some (False, 945)
      else if n = 978 then Some (True, 978)
      else None)"

definition isupper :: "nat \<Rightarrow> bool option" where
  "isupper n = map_option fst (unicode_row n)"

definition lower_code_point :: "nat \<Rightarrow> nat option" where
  "lower_code_point n = map_option snd (unicode_row n)"

fun lower :: "ustring \<Rightarrow> ustring option" where
  "lower [] = Some []"
| "lower (c # cs) =
     (case lower_code_point c of
        None \<Rightarrow> None
      | Some l \<Rightarrow> (case lower cs of None \<Rightarrow> None | Some ls \<Rightarrow> Some (l # ls)))"

text \<open>
  The lowercase mapping as a total function, for the proofs: a code point without a row
  is left as it is.
\<close>

definition mapped :: "nat \<Rightarrow> nat" where
  "mapped c = (case lower_code_point c of Some l \<Rightarrow> l | None \<Rightarrow> c)"

definition tabled :: "ustring \<Rightarrow> bool" where
  "tabled s = list_all (\<lambda>c. unicode_row c \<noteq> None) s"

text \<open>\<^verbatim>\<open>s.replace("_", "-")\<close>: both strings are one code point long, 95 and 45.\<close>

definition replace_underscore :: "ustring \<Rightarrow> ustring" where
  "replace_underscore s = map (\<lambda>c. if c = 95 then 45 else c) s"

text \<open>
  \<^verbatim>\<open>identifier_validator\<close>. The outer \<open>option\<close> of the result is the model's:
  \<open>None\<close> when the string holds a code point without a row. The inner one is the
  source's \<^verbatim>\<open>Optional[str]\<close>.
\<close>

definition identifier_validator :: "ustring option \<Rightarrow> ustring option option" where
  "identifier_validator v =
     (case v of
        None \<Rightarrow> Some None
      | Some s \<Rightarrow>
          (case lower (strip s) of
             None \<Rightarrow> None
           | Some l \<Rightarrow> Some (Some (replace_underscore l))))"

record ProjectInfo =
  name :: ustring
  team :: ustring
  user_email :: "ustring option"
  run_id :: "ustring option"
  tracking_uri :: ustring

text \<open>
  Construction, as pydantic runs it: the \<^verbatim>\<open>pre=True\<close> validator first on
  \<^verbatim>\<open>name\<close> and \<^verbatim>\<open>team\<close>, then the fields' own checks (a required string of
  \<^verbatim>\<open>min_length=1\<close>; for \<^verbatim>\<open>user_email\<close>, \<^verbatim>\<open>min_length=1\<close> when given). A failed
  check is a \<^verbatim>\<open>ValidationError\<close>. The defaults of \<^verbatim>\<open>run_id\<close> and
  \<^verbatim>\<open>tracking_uri\<close> come from the environment and are passed in. The result is
  \<open>None\<close> when the validator's is.
\<close>

definition min_length_1 :: "ustring option \<Rightarrow> bool" where
  "min_length_1 v = (case v of None \<Rightarrow> False | Some s \<Rightarrow> 1 \<le> length s)"

definition new_ProjectInfo ::
  "ustring option \<Rightarrow> ustring option \<Rightarrow> ustring option \<Rightarrow> ustring option \<Rightarrow> ustring
   \<Rightarrow> (py_error + ProjectInfo) option" where
  "new_ProjectInfo name_in team_in email rid uri =
     (case (identifier_validator name_in, identifier_validator team_in) of
        (Some validated_name, Some validated_team) \<Rightarrow>
          Some (case (validated_name, validated_team) of
                  (Some n, Some t) \<Rightarrow>
                    if 1 \<le> length n \<and> 1 \<le> length t \<and> (email = None \<or> min_length_1 email) then
                      Inr \<lparr>name = n, team = t, user_email = email, run_id = rid,
                           tracking_uri = uri\<rparr>
                    else Inl (ValidationError ''ProjectInfo'')
                | _ \<Rightarrow> Inl (ValidationError ''ProjectInfo''))
      | _ \<Rightarrow> None)"

definition project_id :: "ProjectInfo \<Rightarrow> ustring" where
  "project_id p = team p @ ustr '':'' @ name p"

text \<open>The project of name U+03D2 and team \<^verbatim>\<open>t\<close>.\<close>

definition upsilon_project :: ProjectInfo where
  "upsilon_project = \<lparr>name = [978], team = ustr ''t'', user_email = None, run_id = None,
                       tracking_uri = ustr ''uri''\<rparr>"

section \<open>Upload route: \<^verbatim>\<open>opsml/app/routes/artifacts_routes.py\<close>\<close>

definition MAX_FILE_SIZE :: nat where
  "MAX_FILE_SIZE = 1024 * 1024 * 1024 * 50"

definition MAX_REQUEST_BODY_SIZE :: nat where
  "MAX_REQUEST_BODY_SIZE = MAX_FILE_SIZE + 1024"

subsection \<open>The request body as a stream\<close>

text \<open>
  \<^verbatim>\<open>request.stream()\<close> yields the chunks of the body and may raise
  \<^verbatim>\<open>ClientDisconnect\<close> instead of the next chunk. What the route and its helpers read
  of a chunk is its length and what the multipart parser of \<^verbatim>\<open>streaming_form_data\<close>
  does with it: in \<^verbatim>\<open>parser.data_received(chunk)\<close> the parser calls the target
  registered for the part \<^verbatim>\<open>file\<close>, once per event below, in order.
  \<^item> \<open>PartBegin fn\<close>: the headers of the part are complete; the parser stores the
    \<^verbatim>\<open>filename\<close> parameter of its \<^verbatim>\<open>Content-Disposition\<close> (or \<^verbatim>\<open>None\<close>) in
    \<^verbatim>\<open>multipart_filename\<close> and starts the target.
  \<^item> \<open>PartData n\<close>: \<open>n\<close> bytes of the part's payload are handed to the target, which
    runs its validator and then writes them.
  \<^item> \<open>PartEnd\<close>: the part is complete.
  \<^item> \<open>Raise m\<close>: any other exception (malformed multipart data, a write that fails).
\<close>

datatype parser_event = PartBegin "string option" | PartData nat | PartEnd | Raise string

datatype stream_item = Body nat "parser_event list" | ClientDisconnect

datatype upload_exception =
    ClientDisconnectExc
  | MaxBodySizeException nat
  | ValidatorError
  | OtherException string

text \<open>
  The mutable state of a request: \<open>body_len\<close> of the \<^verbatim>\<open>MaxBodySizeValidator\<close>,
  \<open>so_far\<close> of the \<^verbatim>\<open>MaxSizeValidator\<close>, the target's \<open>multipart_filename\<close>, the
  number of payload bytes written to storage and the number of chunks taken from the
  stream.
\<close>

record upload_state =
  body_len :: nat
  so_far :: nat
  multipart_filename :: "string option"
  written :: nat
  chunks_read :: nat

definition initial_upload_state :: upload_state where
  "initial_upload_state =
     \<lparr>body_len = 0, so_far = 0, multipart_filename = None, written = 0, chunks_read = 0\<rparr>"

text \<open>
  Modelled from the spec: \<^verbatim>\<open>MaxBodySizeValidator\<close> and \<^verbatim>\<open>ExternalFileTarget\<close> of
  \<^verbatim>\<open>opsml.app.routes.utils\<close>, which is not among the sources. The body validator adds
  the length of each chunk to \<open>body_len\<close> and raises \<^verbatim>\<open>MaxBodySizeException\<close> (with
  the bytes read) the instant the sum exceeds its maximum; the file target is a
  \<^verbatim>\<open>streaming_form_data\<close> target, which runs its \<^verbatim>\<open>MaxSizeValidator\<close> on each piece
  of payload (a \<^verbatim>\<open>ValidationError\<close> the instant the file would exceed the maximum)
  before it writes the piece.
\<close>

definition body_validator :: "nat \<Rightarrow> nat \<Rightarrow> upload_state \<Rightarrow> upload_exception option \<times> upload_state" where
  "body_validator max_size n s =
     (let s' = s\<lparr>body_len := body_len s + n\<rparr> in
      if body_len s' > max_size then (Some (MaxBodySizeException (body_len s')), s')
      else (None, s'))"

fun data_received :: "nat \<Rightarrow> parser_event list \<Rightarrow> upload_state \<Rightarrow> upload_exception option \<times> upload_state" where
  "data_received max_size [] s = (None, s)"
| "data_received max_size (PartBegin fn # evs) s =
     data_received max_size evs (s\<lparr>multipart_filename := fn\<rparr>)"
| "data_received max_size (PartData n # evs) s =
     (if so_far s + n > max_size then (Some ValidatorError, s)
      else data_received max_size evs (s\<lparr>so_far := so_far s + n, written := written s + n\<rparr>))"
| "data_received max_size (PartEnd # evs) s = data_received max_size evs s"
| "data_received max_size (Raise m # evs) s = (Some (OtherException m), s)"

text \<open>
  The loop \<^verbatim>\<open>async for chunk in request.stream()\<close> of \<^verbatim>\<open>upload_file\<close>: the body
  validator first, then the parser; it ends with the stream or with the first
  exception.
\<close>

fun receive_stream :: "stream_item list \<Rightarrow> upload_state \<Rightarrow> upload_exception option \<times> upload_state" where
  "receive_stream [] s = (None, s)"
| "receive_stream (ClientDisconnect # rest) s = (Some ClientDisconnectExc, s)"
| "receive_stream (Body n evs # rest) s =
     (case body_validator MAX_REQUEST_BODY_SIZE n (s\<lparr>chunks_read := chunks_read s + 1\<rparr>) of
        (Some e, s1) \<Rightarrow> (Some e, s1)
      | (None, s1) \<Rightarrow>
          (case data_received MAX_FILE_SIZE evs s1 of
             (Some e, s2) \<Rightarrow> (Some e, s2)
           | (None, s2) \<Rightarrow> receive_stream rest s2))"

subsection \<open>The route\<close>

text \<open>\<^verbatim>\<open>str\<close> of a natural number, for the detail texts.\<close>

fun str_nat :: "nat \<Rightarrow> string" where
  "str_nat n = (if n < 10 then [char_of (48 + n)]
                else str_nat (n div 10) @ [char_of (48 + n mod 10)])"

declare str_nat.simps [simp del]

text \<open>\<^verbatim>\<open>os.path.join(a, b)\<close> of \<^verbatim>\<open>posixpath\<close>, for two arguments.\<close>

definition os_path_join :: "string \<Rightarrow> string \<Rightarrow> string" where
  "os_path_join a b =
     (if b \<noteq> [] \<and> hd b = CHR ''/'' then b
      else if a = [] \<or> last a = CHR ''/'' then a @ b
      else a @ ''/'' @ b)"

text \<open>\<^verbatim>\<open>not x\<close> for an optional string: \<^verbatim>\<open>None\<close> and the empty string are falsy.\<close>

definition falsy :: "string option \<Rightarrow> bool" where
  "falsy x = (case x of None \<Rightarrow> True | Some v \<Rightarrow> v = [])"

record upload_response =
  response_storage_uri :: string

text \<open>
  A request to \<^verbatim>\<open>POST /upload\<close>: the two headers, the body stream, and
  \<open>setup_error\<close>, the exception (if any) that constructing the
  \<^verbatim>\<open>ExternalFileTarget\<close> or the \<^verbatim>\<open>StreamingFormDataParser\<close> raises for this request,
  for instance on a \<^verbatim>\<open>Content-Type\<close> that is not multipart.
\<close>

record upload_request =
  filename_header :: "string option"
  write_path_header :: "string option"
  setup_error :: "string option"
  stream :: "stream_item list"

definition max_body_detail :: "nat \<Rightarrow> string" where
  "max_body_detail n =
     [CHR 0x0A] @ ''               Maximum request body size limit (''
     @ str_nat MAX_REQUEST_BODY_SIZE @ ''.'' @ [CHR 0x0A]
     @ ''               Bytes exceeded ('' @ str_nat n @ '' bytes read)''"

definition max_file_detail :: string where
  "max_file_detail = ''Maximum file size limit ('' @ str_nat MAX_FILE_SIZE @ '' bytes) exceeded''"

text \<open>The \<^verbatim>\<open>try\<close> block of \<^verbatim>\<open>upload_file\<close>: what it raised, if anything, and the state it left.\<close>

definition upload_try :: "upload_request \<Rightarrow> upload_exception option \<times> upload_state" where
  "upload_try request =
     (case setup_error request of
        Some m \<Rightarrow> (Some (OtherException m), initial_upload_state)
      | None \<Rightarrow> receive_stream (stream request) initial_upload_state)"

definition upload_file :: "upload_request \<Rightarrow> py_error + upload_response" where
  "upload_file request =
     (case filename_header request of
        None \<Rightarrow> Inl (HTTPException HTTP_422_UNPROCESSABLE_ENTITY ''Filename header is missing'')
      | Some filename \<Rightarrow>
     (case write_path_header request of
        None \<Rightarrow> Inl (HTTPException HTTP_422_UNPROCESSABLE_ENTITY ''No write path provided'')
      | Some write_path \<Rightarrow>
     (case upload_try request of
        (Some (MaxBodySizeException n), file_target) \<Rightarrow>
          Inl (HTTPException HTTP_413_REQUEST_ENTITY_TOO_LARGE (max_body_detail n))
      | (Some ValidatorError, file_target) \<Rightarrow>
          Inl (HTTPException HTTP_413_REQUEST_ENTITY_TOO_LARGE max_file_detail)
      | (Some (OtherException m), file_target) \<Rightarrow>
          Inl (HTTPException HTTP_500_INTERNAL_SERVER_ERROR
                 (''There was an error uploading the file. '' @ m))
      | (_, file_target) \<Rightarrow>
          if falsy (multipart_filename file_target) then
            Inl (HTTPException HTTP_422_UNPROCESSABLE_ENTITY ''File is missing'')
          else Inr \<lparr>response_storage_uri = os_path_join write_path filename\<rparr>)))"

subsection \<open>What a stream carries\<close>

text \<open>
  The bytes of the body, the bytes of the file part, and the filename the parser has
  stored last; a stream is undisturbed when it holds no disconnect and no other
  exception.
\<close>

fun data_size :: "parser_event list \<Rightarrow> nat" where
  "data_size [] = 0"
| "data_size (PartData n # evs) = n + data_size evs"
| "data_size (e # evs) = data_size evs"

fun last_filename :: "parser_event list \<Rightarrow> string option \<Rightarrow> string option" where
  "last_filename [] cur = cur"
| "last_filename (PartBegin fn # evs) cur = last_filename evs fn"
| "last_filename (e # evs) cur = last_filename evs cur"

fun no_raise :: "parser_event list \<Rightarrow> bool" where
  "no_raise [] = True"
| "no_raise (Raise m # evs) = False"
| "no_raise (e # evs) = no_raise evs"

fun body_size :: "stream_item list \<Rightarrow> nat" where
  "body_size [] = 0"
| "body_size (Body n evs # rest) = n + body_size rest"
| "body_size (ClientDisconnect # rest) = body_size rest"

fun file_size :: "stream_item list \<Rightarrow> nat" where
  "file_size [] = 0"
| "file_size (Body n evs # rest) = data_size evs + file_size rest"
| "file_size (ClientDisconnect # rest) = file_size rest"

fun sent_filename :: "stream_item list \<Rightarrow> string option \<Rightarrow> string option" where
  "sent_filename [] cur = cur"
| "sent_filename (Body n evs # rest) cur = sent_filename rest (last_filename evs cur)"
| "sent_filename (ClientDisconnect # rest) cur = sent_filename rest cur"

fun undisturbed :: "stream_item list \<Rightarrow> bool" where
  "undisturbed [] = True"
| "undisturbed (Body n evs # rest) = (no_raise evs \<and> undisturbed rest)"
| "undisturbed (ClientDisconnect # rest) = False"

text \<open>Streams used as concrete inputs: one chunk that carries the whole file part.\<close>

definition one_chunk_upload :: "nat \<Rightarrow> nat \<Rightarrow> stream_item list" where
  "one_chunk_upload overhead file_len =
     [Body (overhead + file_len) [PartBegin (Some ''model.onnx''), PartData file_len, PartEnd]]"

definition upload_of :: "stream_item list \<Rightarrow> upload_request" where
  "upload_of items = \<lparr>filename_header = Some ''model.onnx'', write_path_header = Some ''models/v1'',
                       setup_error = None, stream = items\<rparr>"


text \<open>The two exceptions that report a size bound crossed.\<close>

fun size_exception :: "upload_exception option \<Rightarrow> bool" where
  "size_exception (Some (MaxBodySizeException n)) = True"
| "size_exception (Some ValidatorError) = True"
| "size_exception e = False"


section \<open>Polars data interface: \<^verbatim>\<open>opsml/registry/data/interfaces/polars_.py\<close>\<close>

text \<open>
  A \<^verbatim>\<open>pathlib.Path\<close> is its parent directories and its final component, the name.
  \<^verbatim>\<open>Path.suffix\<close> is the name from its last dot on, unless that dot is the first or
  the last character; \<^verbatim>\<open>Path.with_suffix\<close> replaces the suffix, or appends the new
  one to a name that has none.
\<close>

record py_path =
  path_parents :: "string list"
  path_name :: string

fun rfind :: "char \<Rightarrow> string \<Rightarrow> nat option" where
  "rfind c [] = None"
| "rfind c (x # xs) =
     (case rfind c xs of
        Some i \<Rightarrow> Some (Suc i)
      | None \<Rightarrow> if x = c then Some 0 else None)"

definition path_suffix :: "py_path \<Rightarrow> string" where
  "path_suffix p =
     (case rfind CHR ''.'' (path_name p) of
        None \<Rightarrow> []
      | Some i \<Rightarrow> if 0 < i \<and> i + 1 < length (path_name p) then drop i (path_name p) else [])"

definition with_suffix :: "py_path \<Rightarrow> string \<Rightarrow> py_error + py_path" where
  "with_suffix p sfx =
     (if CHR ''/'' \<in> set sfx then Inl (ValueError ''Invalid suffix'')
      else if (sfx \<noteq> [] \<and> hd sfx \<noteq> CHR ''.'') \<or> sfx = ''.'' then
        Inl (ValueError ''Invalid suffix'')
      else if path_name p = [] then Inl (ValueError ''path has an empty name'')
      else
        let old_suffix = path_suffix p;
            new_name = (if old_suffix = [] then path_name p @ sfx
                        else take (length (path_name p) - length old_suffix) (path_name p) @ sfx)
        in Inr (p\<lparr>path_name := new_name\<rparr>))"

text \<open>
  A polars frame has columns and no row index. The interface holds the frame and the
  feature map; a \<^verbatim>\<open>Feature\<close> is a type string and a shape.
\<close>

record 'v pl_DataFrame =
  pl_columns :: "'v column list"

record Feature =
  feature_type :: string
  shape :: "nat list"

record 'v PolarsData =
  self_data :: "'v pl_DataFrame option"
  polars_feature_map :: "string \<rightharpoonup> Feature"

text \<open>
  The dictionary comprehension of \<^verbatim>\<open>save_data\<close> over \<^verbatim>\<open>self.data.schema.items()\<close>.
\<close>

fun feature_map_of :: "'v column list \<Rightarrow> (string \<rightharpoonup> Feature)" where
  "feature_map_of [] = Map.empty"
| "feature_map_of ((key, ty, vs) # cols) =
     (feature_map_of cols)(key \<mapsto> \<lparr>feature_type = ty, shape = [1]\<rparr>)"

text \<open>
  The libraries, as far as the interface uses them. \<^verbatim>\<open>DataFrame.to_arrow\<close> and
  \<^verbatim>\<open>pl.from_arrow\<close> keep the columns in their order and translate each type string
  (the translations are parameters). A parquet file holds an arrow table:
  \<^verbatim>\<open>pq.write_table(table, path)\<close> stores it under \<open>path\<close>, and
  \<^verbatim>\<open>pq.ParquetDataset(path).read()\<close> gives the table stored under \<open>path\<close> or fails
  with \<^verbatim>\<open>FileNotFoundError\<close>.
\<close>

type_synonym 'v filesystem = "py_path \<rightharpoonup> 'v pa_Table"

definition to_arrow :: "(string \<Rightarrow> string) \<Rightarrow> 'v pl_DataFrame \<Rightarrow> 'v pa_Table" where
  "to_arrow arrow_type df = \<lparr>pa_columns = map (\<lambda>(n, t, vs). (n, arrow_type t, vs)) (pl_columns df)\<rparr>"

definition from_arrow :: "(string \<Rightarrow> string) \<Rightarrow> 'v pa_Table \<Rightarrow> 'v pl_DataFrame" where
  "from_arrow polars_type t = \<lparr>pl_columns = map (\<lambda>(n, ty, vs). (n, polars_type ty, vs)) (pa_columns t)\<rparr>"

definition write_table :: "'v pa_Table \<Rightarrow> py_path \<Rightarrow> 'v filesystem \<Rightarrow> 'v filesystem" where
  "write_table t path fs = fs(path \<mapsto> t)"

definition read_parquet :: "py_path \<Rightarrow> 'v filesystem \<Rightarrow> py_error + 'v pa_Table" where
  "read_parquet path fs = (case fs path of None \<Rightarrow> Inl FileNotFoundError | Some t \<Rightarrow> Inr t)"

text \<open>
  \<^verbatim>\<open>PolarsData.save_data\<close> and \<^verbatim>\<open>PolarsData.load_data\<close>. \<open>storage_suffix\<close> is the
  value of \<^verbatim>\<open>Suffix.PARQUET\<close> and \<open>check_data_schema\<close> the function of that name of
  \<^verbatim>\<open>opsml.registry.data.formatter\<close>; neither is among the sources, both are
  parameters. \<open>save_data\<close> returns the path it computed, the interface with its new
  feature map, and the file system after the write.
\<close>

definition save_data ::
  "string \<Rightarrow> (string \<Rightarrow> string) \<Rightarrow> 'v PolarsData \<Rightarrow> 'v filesystem \<Rightarrow> py_path
   \<Rightarrow> py_error + (py_path \<times> 'v PolarsData \<times> 'v filesystem)" where
  "save_data storage_suffix arrow_type self fs path =
     (case self_data self of
        None \<Rightarrow> Inl (AssertionError ''No data detected in interface'')
      | Some df \<Rightarrow>
          let self' = self\<lparr>polars_feature_map := feature_map_of (pl_columns df)\<rparr> in
          (case with_suffix path storage_suffix of
             Inl e \<Rightarrow> Inl e
           | Inr save_path \<Rightarrow> Inr (save_path, self', write_table (to_arrow arrow_type df) path fs)))"

definition load_data ::
  "('v pl_DataFrame \<Rightarrow> (string \<rightharpoonup> Feature) \<Rightarrow> string \<Rightarrow> py_error + 'v pl_DataFrame)
   \<Rightarrow> string \<Rightarrow> (string \<Rightarrow> string) \<Rightarrow> 'v PolarsData \<Rightarrow> 'v filesystem \<Rightarrow> py_path
   \<Rightarrow> py_error + 'v PolarsData" where
  "load_data check_data_schema storage_suffix polars_type self fs path =
     (case with_suffix path storage_suffix of
        Inl e \<Rightarrow> Inl e
      | Inr load_path \<Rightarrow>
          (case read_parquet load_path fs of
             Inl e \<Rightarrow> Inl e
           | Inr pa_table \<Rightarrow>
               (case check_data_schema (from_arrow polars_type pa_table) (polars_feature_map self)
                       (AllowedDataType_value POLARS) of
                  Inl e \<Rightarrow> Inl e
                | Inr df \<Rightarrow> Inr (self\<lparr>self_data := Some df\<rparr>))))"

text \<open>\<^verbatim>\<open>Path("data")\<close> and \<^verbatim>\<open>Path("data.parquet")\<close>.\<close>

definition data_path :: py_path where
  "data_path = \<lparr>path_parents = [], path_name = ''data''\<rparr>"

definition data_parquet_path :: py_path where
  "data_parquet_path = \<lparr>path_parents = [], path_name = ''data.parquet''\<rparr>"


section \<open>Verification\<close>

subsection \<open>Type dispatcher\<close>

lemmas cls_defs =
  cls_dict_def cls_ImageDataset_def cls_ndarray_def cls_pd_DataFrame_def
  cls_pl_DataFrame_def cls_pa_Table_def cls_str_def

lemma earliest_match_dispatch:
  "earliest_match dispatch_order data =
     (if isinstance data cls_dict then Some DICT
      else if isinstance data cls_ImageDataset then Some IMAGE
      else if isinstance data cls_ndarray then Some NUMPY
      else if isinstance data cls_pd_DataFrame then Some PANDAS
      else if isinstance data cls_pl_DataFrame then Some POLARS
      else if isinstance data cls_pa_Table then Some PYARROW
      else if isinstance data cls_str then Some STRING
      else if get_class_name data = AllowedDataType_value TRANSFORMER_BATCH then Some TRANSFORMER_BATCH
      else if get_class_name data = AllowedDataType_value TORCH_TENSOR then Some TORCH_TENSOR
      else if get_class_name data = AllowedDataType_value TENSORFLOW_TENSOR then Some TENSORFLOW_TENSOR
      else None)"
  unfolding dispatch_order_def by simp

lemma check_data_type_earliest:
  "check_data_type data =
     (case earliest_match dispatch_order data of
        Some t \<Rightarrow> Inr (AllowedDataType_value t)
      | None \<Rightarrow> Inl (ValueError (unsupported_message data)))"
  unfolding earliest_match_dispatch check_data_type_def Let_def by simp

lemma earliest_match_claimed:
  "earliest_match claimed_order data =
     (if isinstance data cls_dict then Some DICT
      else if isinstance data cls_ndarray then Some NUMPY
      else if isinstance data cls_pd_DataFrame then Some PANDAS
      else if isinstance data cls_pl_DataFrame then Some POLARS
      else if isinstance data cls_pa_Table then Some PYARROW
      else if isinstance data cls_str then Some STRING
      else if get_class_name data = AllowedDataType_value TRANSFORMER_BATCH then Some TRANSFORMER_BATCH
      else if get_class_name data = AllowedDataType_value TORCH_TENSOR then Some TORCH_TENSOR
      else if get_class_name data = AllowedDataType_value TENSORFLOW_TENSOR then Some TENSORFLOW_TENSOR
      else None)"
  unfolding claimed_order_def by simp

lemma str_type_in_message: "sublist (str_type data) (unsupported_message data)"
  unfolding unsupported_message_def sublist_def by (metis append.assoc)

text \<open>
  C2, as the source has it. An object that satisfies none of the dispatcher's checks makes
  \<open>check_data_type\<close> raise: the exception is a \<^verbatim>\<open>ValueError\<close> (the source has no
  \<^verbatim>\<open>UnsupportedTypeError\<close>), and its message contains \<^verbatim>\<open>str(type(data))\<close>, which
  spells the class name of the received object.
\<close>

theorem check_data_type_unsupported:
  "no_classifier_matches data \<Longrightarrow>
     check_data_type data = Inl (ValueError (unsupported_message data))
     \<and> sublist (str_type data) (unsupported_message data)
     \<and> sublist (get_class_name data) (str_type data)"
proof -
  assume "no_classifier_matches data"
  then have "check_data_type data = Inl (ValueError (unsupported_message data))"
    by (simp add: no_classifier_matches_def check_data_type_earliest)
  moreover have "sublist (get_class_name data) (str_type data)"
    unfolding str_type_def sublist_def by (metis append.assoc)
  ultimately show ?thesis using str_type_in_message by blast
qed

theorem check_data_type_unsupported_witness:
  "no_classifier_matches int_object
   \<and> check_data_type int_object = Inl (ValueError (unsupported_message int_object))
   \<and> str_type int_object = ''<class '' @ [CHR 0x27] @ ''int'' @ [CHR 0x27] @ ''>''"
proof -
  have h: "no_classifier_matches int_object"
    by (simp add: no_classifier_matches_def earliest_match_dispatch isinstance_def
        get_class_name_def int_object_def cls_defs)
  have "str_type int_object = ''<class '' @ [CHR 0x27] @ ''int'' @ [CHR 0x27] @ ''>''"
    by (simp add: str_type_def get_class_name_def int_object_def)
  with h check_data_type_unsupported [OF h] show ?thesis by simp
qed

text \<open>
  C2 as the specification words it fails: for an \<^verbatim>\<open>int\<close>, which no check accepts, the
  exception raised is not an \<^verbatim>\<open>UnsupportedTypeError\<close>.
\<close>

theorem check_data_type_not_UnsupportedTypeError:
  "no_classifier_matches int_object \<and> \<not> is_UnsupportedTypeError (check_data_type int_object)"
  by (simp add: no_classifier_matches_def earliest_match_dispatch check_data_type_earliest
      isinstance_def get_class_name_def int_object_def cls_defs)

text \<open>
  C3, amended. The dispatcher returns the tag of the earliest check that the object
  satisfies in the fixed order of its source: dict, ImageDataset, ndarray, pandas
  DataFrame, polars DataFrame, arrow table, string, then the named-class fallbacks. An
  object that is a dict is tagged dict, whatever else it is an instance of. For an object
  that is not an ImageDataset this is also the earliest matching check of the order the
  specification words (the same order without the ImageDataset check).
\<close>

theorem check_data_type_priority:
  "check_data_type data =
     (case earliest_match dispatch_order data of
        Some t \<Rightarrow> Inr (AllowedDataType_value t)
      | None \<Rightarrow> Inl (ValueError (unsupported_message data)))
   \<and> (isinstance data cls_dict \<longrightarrow> check_data_type data = Inr (AllowedDataType_value DICT))
   \<and> (\<not> isinstance data cls_ImageDataset \<longrightarrow>
        earliest_match claimed_order data = earliest_match dispatch_order data)"
  using check_data_type_earliest [of data]
  by (simp add: earliest_match_dispatch earliest_match_claimed)

theorem check_data_type_priority_witness:
  "isinstance dict_tensor_object cls_dict
   \<and> get_class_name dict_tensor_object = AllowedDataType_value TORCH_TENSOR
   \<and> \<not> isinstance dict_tensor_object cls_ImageDataset
   \<and> check_data_type dict_tensor_object = Inr ''dict''
   \<and> earliest_match claimed_order dict_tensor_object = earliest_match dispatch_order dict_tensor_object"
proof -
  have d: "isinstance dict_tensor_object cls_dict"
    and i: "\<not> isinstance dict_tensor_object cls_ImageDataset"
    and n: "get_class_name dict_tensor_object = AllowedDataType_value TORCH_TENSOR"
    by (simp_all add: isinstance_def get_class_name_def dict_tensor_object_def cls_defs)
  from check_data_type_priority [of dict_tensor_object] d i
  have "check_data_type dict_tensor_object = Inr (AllowedDataType_value DICT)
        \<and> earliest_match claimed_order dict_tensor_object
            = earliest_match dispatch_order dict_tensor_object" by blast
  with d i n show ?thesis by simp
qed

text \<open>
  C3 as first stated fails on objects that are ImageDatasets: the source tests for
  ImageDataset before ndarray and all later checks, so an ImageDataset whose class is
  named \<^verbatim>\<open>torch.Tensor\<close>, or one that is also a pandas DataFrame, is tagged
  \<^verbatim>\<open>ImageDataset\<close>, while the earliest matching check of the stated order is the
  \<^verbatim>\<open>torch.Tensor\<close> fallback, or the pandas one.
\<close>

theorem check_data_type_ImageDataset_first:
  "check_data_type image_tensor_object = Inr ''ImageDataset''
   \<and> earliest_match claimed_order image_tensor_object = Some TORCH_TENSOR
   \<and> check_data_type image_frame_object = Inr ''ImageDataset''
   \<and> earliest_match claimed_order image_frame_object = Some PANDAS"
  by (simp add: check_data_type_earliest earliest_match_dispatch earliest_match_claimed
      isinstance_def get_class_name_def image_tensor_object_def image_frame_object_def cls_defs)

subsection \<open>Formatter\<close>

text \<open>
  \<^verbatim>\<open>PandasFormatter.convert\<close> keeps the columns of the frame, names and cells, in
  their order, and the table it builds has no place for the row index.
\<close>

lemma PandasFormatter_convert_columns:
  "table (PandasFormatter_convert arrow_type df) = ArrowData t \<Longrightarrow>
     map fst (pa_columns t) = map fst (pd_columns df)
     \<and> map (snd \<circ> snd) (pa_columns t) = map (snd \<circ> snd) (pd_columns df)"
  by (auto simp: PandasFormatter_convert_def from_pandas_def)

text \<open>
  C5, as the source has it. For a numpy array the derived schema is the single-entry map
  from the key \<^verbatim>\<open>numpy_dtype\<close> to the string of the array's element dtype; the
  converted \<^verbatim>\<open>ArrowTable\<close> holds the array itself.
\<close>

theorem create_table_schema_numpy:
  "convert_data_to_arrow arrow_type (NumpyData a) = Inr (NumpyFormatter_convert (NumpyData a))
   \<and> table (NumpyFormatter_convert (NumpyData a)) = NumpyData a
   \<and> create_table_schema (table (NumpyFormatter_convert (NumpyData a)))
       = [''numpy_dtype'' \<mapsto> Some (np_dtype a)]"
  by (simp add: convert_data_to_arrow_def PandasFormatter_validate_data_def
      NumpyFormatter_validate_data_def NumpyFormatter_convert_def create_table_schema_def)

text \<open>
  C5 as the specification words it fails: the schema of a float64 array is not the map
  with the single key \<^verbatim>\<open>dtype\<close>; it has no entry under that key.
\<close>

theorem create_table_schema_numpy_key:
  "create_table_schema (NumpyData float64_array) \<noteq> [''dtype'' \<mapsto> Some ''float64'']
   \<and> create_table_schema (NumpyData float64_array) ''dtype'' = None
   \<and> create_table_schema (NumpyData float64_array) ''numpy_dtype'' = Some (Some ''float64'')"
proof -
  have k: "create_table_schema (NumpyData float64_array) ''dtype'' = None"
    by (simp add: create_table_schema_def)
  have "[''dtype'' \<mapsto> Some ''float64''] ''dtype'' = Some (Some ''float64'')" by simp
  with k have "create_table_schema (NumpyData float64_array) \<noteq> [''dtype'' \<mapsto> Some ''float64'']"
    by (metis option.distinct(1))
  moreover have "create_table_schema (NumpyData float64_array) ''numpy_dtype'' = Some (Some ''float64'')"
    by (simp add: create_table_schema_def float64_array_def)
  ultimately show ?thesis using k by blast
qed


subsection \<open>Model download route\<close>

text \<open>
  C4, as the source has it. When the registry lookup of \<^verbatim>\<open>POST /download_model\<close> finds
  no card, the route raises an \<^verbatim>\<open>HTTPException\<close> with status 500 and detail
  \<^verbatim>\<open>No model found\<close>: the lookup miss is answered with a 5xx code.
\<close>

theorem download_model_no_card:
  "list_cards payload = [] \<Longrightarrow>
     download_model list_cards iterfile_of model_file payload
       = Inl (HTTPException 500 ''No model found'')
     \<and> status_code (download_model list_cards iterfile_of model_file payload) = 500
     \<and> is_5xx (status_code (download_model list_cards iterfile_of model_file payload))"
  by (simp add: download_model_def HTTP_500_INTERNAL_SERVER_ERROR_def is_5xx_def)

theorem download_model_no_card_witness:
  "(\<lambda>p. []) missing_model_request = ([] :: card list)
   \<and> download_model (\<lambda>p. []) (\<lambda>path size. Inr []) ''model.onnx'' missing_model_request
       = Inl (HTTPException 500 ''No model found'')"
proof -
  have h: "(\<lambda>p. []) missing_model_request = ([] :: card list)" by simp
  from download_model_no_card [of "\<lambda>p. []" missing_model_request "\<lambda>path size. Inr []" "''model.onnx''", OF h]
  show ?thesis by simp
qed

text \<open>
  C4 as the specification words it fails: a lookup that finds no card is not answered
  with a 4xx status code.
\<close>

theorem download_model_no_card_not_4xx:
  "status_code (download_model (\<lambda>p. []) (\<lambda>path size. Inr []) ''model.onnx'' missing_model_request) = 500
   \<and> \<not> is_4xx (status_code (download_model (\<lambda>p. []) (\<lambda>path size. Inr []) ''model.onnx'' missing_model_request))"
  by (simp add: download_model_def HTTP_500_INTERNAL_SERVER_ERROR_def is_4xx_def)

subsection \<open>Chunked reading\<close>

lemma read_chunks_step:
  "0 < n \<Longrightarrow> xs \<noteq> [] \<Longrightarrow> read_chunks xs n = take n xs # read_chunks (drop n xs) n"
  by (subst read_chunks.simps) simp

lemma read_chunks_Nil: "read_chunks [] n = []"
  by (subst read_chunks.simps) simp

lemma read_chunks_short:
  "0 < n \<Longrightarrow> xs \<noteq> [] \<Longrightarrow> length xs \<le> n \<Longrightarrow> read_chunks xs n = [xs]"
  by (simp add: read_chunks_step read_chunks_Nil)

lemma read_chunks_length_le: "c \<in> set (read_chunks xs n) \<Longrightarrow> length c \<le> n"
proof (induction xs n rule: read_chunks.induct)
  case (1 content chunk_size)
  show ?case
  proof (cases "chunk_size = 0 \<or> content = []")
    case True
    with "1.prems" show ?thesis by (simp add: read_chunks.simps [of content chunk_size])
  next
    case False
    with "1.prems" have "c = take chunk_size content
        \<or> c \<in> set (read_chunks (drop chunk_size content) chunk_size)"
      by (simp add: read_chunks.simps [of content chunk_size])
    with False "1.IH" show ?thesis by auto
  qed
qed

lemma concat_read_chunks: "0 < n \<Longrightarrow> concat (read_chunks xs n) = xs"
proof (induction xs n rule: read_chunks.induct)
  case (1 content chunk_size)
  show ?case
  proof (cases "content = []")
    case True
    then show ?thesis by (simp add: read_chunks_Nil)
  next
    case False
    with "1.prems" "1.IH" have "concat (read_chunks (drop chunk_size content) chunk_size)
        = drop chunk_size content" by simp
    with False "1.prems" show ?thesis by (simp add: read_chunks_step)
  qed
qed

lemma read_chunks_nonempty: "c \<in> set (read_chunks xs n) \<Longrightarrow> c \<noteq> []"
proof (induction xs n rule: read_chunks.induct)
  case (1 content chunk_size)
  show ?case
  proof (cases "chunk_size = 0 \<or> content = []")
    case True
    with "1.prems" show ?thesis by (simp add: read_chunks.simps [of content chunk_size])
  next
    case False
    with "1.prems" have "c = take chunk_size content
        \<or> c \<in> set (read_chunks (drop chunk_size content) chunk_size)"
      by (simp add: read_chunks.simps [of content chunk_size])
    with False "1.IH" show ?thesis by auto
  qed
qed

lemma read_chunks_five_and_seven:
  assumes n: "7 \<le> n" and len: "length xs = 5 * n + 7"
  shows "read_chunks xs n =
           [take n xs, take n (drop n xs), take n (drop (2 * n) xs), take n (drop (3 * n) xs),
            take n (drop (4 * n) xs), drop (5 * n) xs]"
proof -
  from n have pos: "0 < n" by simp
  have st: "read_chunks (drop m xs) n = take n (drop m xs) # read_chunks (drop (m + n) xs) n"
    if "m \<le> 5 * n" for m
  proof -
    from that len have "m < length xs" by linarith
    then have "drop m xs \<noteq> []" by simp
    with pos show ?thesis by (simp add: read_chunks_step add.commute)
  qed
  have a: "0 + n = n" "n + n = 2 * n" "2 * n + n = 3 * n" "3 * n + n = 4 * n" "4 * n + n = 5 * n"
    by simp_all
  have s0: "read_chunks xs n = take n xs # read_chunks (drop n xs) n"
    using st [of 0] by simp
  have s1: "read_chunks (drop n xs) n = take n (drop n xs) # read_chunks (drop (2 * n) xs) n"
    using st [of n] by (simp only: a; simp)
  have s2: "read_chunks (drop (2 * n) xs) n
      = take n (drop (2 * n) xs) # read_chunks (drop (3 * n) xs) n"
    using st [of "2 * n"] by (simp only: a; simp)
  have s3: "read_chunks (drop (3 * n) xs) n
      = take n (drop (3 * n) xs) # read_chunks (drop (4 * n) xs) n"
    using st [of "3 * n"] by (simp only: a; simp)
  have s4: "read_chunks (drop (4 * n) xs) n
      = take n (drop (4 * n) xs) # read_chunks (drop (5 * n) xs) n"
    using st [of "4 * n"] by (simp only: a; simp)
  have "length (drop (5 * n) xs) = 7" using len by simp
  then have s5: "read_chunks (drop (5 * n) xs) n = [drop (5 * n) xs]"
    using pos n by (intro read_chunks_short) auto
  show ?thesis by (simp only: s0 s1 s2 s3 s4 s5)
qed

text \<open>
  C8, amended. For every stored file and every positive \<open>chunk_size\<close>, \<open>iterfile\<close>
  returns a finite list of chunks, none empty and none longer than \<open>chunk_size\<close>,
  which put together are the file (so their lengths add up to the file size). For a
  file of \<open>5 * chunk_size + 7\<close> bytes and \<open>chunk_size\<close> at least 7 there are exactly 6
  chunks, the last of length 7.
\<close>

theorem iterfile_chunks:
  "0 < chunk_size \<Longrightarrow> store file_path = Some content \<Longrightarrow>
     (\<exists>chunks. iterfile store file_path chunk_size = Inr chunks
        \<and> (\<forall>c \<in> set chunks. c \<noteq> [] \<and> length c \<le> chunk_size)
        \<and> concat chunks = content
        \<and> sum_list (map length chunks) = length content
        \<and> (7 \<le> chunk_size \<and> length content = 5 * chunk_size + 7 \<longrightarrow>
             length chunks = 6 \<and> length (last chunks) = 7))"
proof -
  assume pos: "0 < chunk_size" and f: "store file_path = Some content"
  let ?chunks = "read_chunks content chunk_size"
  have r: "iterfile store file_path chunk_size = Inr ?chunks" using f by (simp add: iterfile_def)
  have b: "\<forall>c \<in> set ?chunks. c \<noteq> [] \<and> length c \<le> chunk_size"
    using read_chunks_length_le read_chunks_nonempty by blast
  have c: "concat ?chunks = content" using pos by (rule concat_read_chunks)
  then have "length (concat ?chunks) = length content" by simp
  then have s: "sum_list (map length ?chunks) = length content" by (simp add: length_concat)
  have "length ?chunks = 6 \<and> length (last ?chunks) = 7"
    if "7 \<le> chunk_size" "length content = 5 * chunk_size + 7"
    using that by (simp add: read_chunks_five_and_seven)
  with r b c s show ?thesis by blast
qed

theorem iterfile_chunks_witness:
  "iterfile [''model.onnx'' \<mapsto> replicate 47 0] ''model.onnx'' 8
     = Inr [replicate 8 0, replicate 8 0, replicate 8 0, replicate 8 0, replicate 8 0, replicate 7 0]"
proof -
  have p: "(0::nat) < 8" by simp
  have f: "[''model.onnx'' \<mapsto> replicate 47 (0::byte)] ''model.onnx'' = Some (replicate 47 0)" by simp
  from iterfile_chunks [of 8 "[''model.onnx'' \<mapsto> replicate 47 0]" "''model.onnx''" "replicate 47 0"] p f
  obtain chunks where
    r: "iterfile [''model.onnx'' \<mapsto> replicate 47 0] ''model.onnx'' 8 = Inr chunks"
    and n: "length chunks = 6" by auto
  have "read_chunks (replicate 47 (0::byte)) 8
      = [replicate 8 0, replicate 8 0, replicate 8 0, replicate 8 0, replicate 8 0, replicate 7 0]"
    by (simp add: read_chunks_five_and_seven)
  with r n show ?thesis by (simp add: iterfile_def)
qed

text \<open>
  C8 as the specification words it fails for small chunk sizes: with \<open>chunk_size = 1\<close>
  a file of \<open>5 * 1 + 7 = 12\<close> bytes is read in 12 chunks, not 6.
\<close>

theorem iterfile_chunk_size_one:
  "iterfile [''model.onnx'' \<mapsto> replicate (5 * 1 + 7) 0] ''model.onnx'' 1 = Inr (replicate 12 [0])
   \<and> length (replicate 12 [0 :: byte]) \<noteq> 6"
proof -
  have "read_chunks (replicate (5 * 1 + 7) (0::byte)) 1 = replicate 12 [0]"
    by (simp add: read_chunks_step read_chunks_Nil eval_nat_numeral)
  then show ?thesis by (simp add: iterfile_def)
qed

subsection \<open>Data splitter\<close>

text \<open>The assertions of \<^verbatim>\<open>test_base_splitter\<close> hold of the modelled splitter.\<close>

lemma test_base_splitter:
  "raises_ValueError (column_name test_indices_splitter)"
  "raises_ValueError (column_value test_indices_splitter)"
  "raises_ValueError (start test_indices_splitter)"
  "raises_ValueError (stop test_indices_splitter)"
  "raises_ValueError (indices test_range_splitter)"
  by (simp_all add: column_name_def column_value_def start_def stop_def indices_def
      test_indices_splitter_def test_range_splitter_def)

text \<open>
  C6. Accessing a property that belongs to another variant than the splitter's split
  raises \<^verbatim>\<open>ValueError\<close>. In particular \<^verbatim>\<open>column_name\<close> and \<^verbatim>\<open>column_value\<close>
  raise it on a splitter built from a range or an indices split, and \<^verbatim>\<open>indices\<close>
  raises it on a splitter built from a start/stop range split.
\<close>

theorem splitter_property_of_other_variant:
  "(property_variant p \<noteq> variant_of (split s) \<longrightarrow> raises_ValueError (access p s))
   \<and> (variant_of (split s) \<noteq> ColumnVariant \<longrightarrow>
        raises_ValueError (column_name s) \<and> raises_ValueError (column_value s))
   \<and> (variant_of (split s) = RangeVariant \<longrightarrow> raises_ValueError (indices s))"
  by (cases "split s"; cases p)
     (simp_all add: column_name_def column_value_def start_def stop_def indices_def)

theorem splitter_property_of_other_variant_witness:
  "variant_of (split test_range_splitter) = RangeVariant
   \<and> property_variant Indices \<noteq> variant_of (split test_range_splitter)
   \<and> raises_ValueError (access Indices test_range_splitter)
   \<and> raises_ValueError (column_name test_range_splitter)
   \<and> raises_ValueError (column_value test_range_splitter)
   \<and> raises_ValueError (indices test_range_splitter)"
proof -
  have v: "variant_of (split test_range_splitter) = RangeVariant"
    by (simp add: test_range_splitter_def)
  with splitter_property_of_other_variant [of Indices test_range_splitter]
  show ?thesis by simp
qed

subsection \<open>Project identifiers\<close>

lemmas identifier_defs =
  new_ProjectInfo_def identifier_validator_def strip_def isspace_def lower_code_point_def
  unicode_row_def latin1_capital_def replace_underscore_def ustr_def min_length_1_def

lemma lower_tabled: "tabled s \<Longrightarrow> lower s = Some (map mapped s)"
  by (induction s) (auto simp: tabled_def mapped_def lower_code_point_def)

lemma lower_Some_tabled: "lower s = Some l \<Longrightarrow> tabled s"
  by (induction s arbitrary: l)
     (auto simp: tabled_def lower_code_point_def split: option.splits)

lemma isspace_mapped: "isspace (mapped c) = isspace c"
  by (auto simp: mapped_def lower_code_point_def unicode_row_def latin1_capital_def isspace_def)

lemma mapped_idem: "mapped (mapped c) = mapped c"
  by (auto simp: mapped_def lower_code_point_def unicode_row_def latin1_capital_def)

lemma unicode_row_mapped: "unicode_row c \<noteq> None \<Longrightarrow> unicode_row (mapped c) \<noteq> None"
  by (auto simp: mapped_def lower_code_point_def unicode_row_def latin1_capital_def
      split: if_splits)

lemma mapped_not_capital: "mapped c < 256 \<Longrightarrow> isupper (mapped c) = Some False"
  by (auto simp: mapped_def lower_code_point_def unicode_row_def latin1_capital_def isupper_def
      split: if_splits)

lemma mapped_latin1: "c < 256 \<Longrightarrow> mapped c < 256"
  by (auto simp: mapped_def lower_code_point_def unicode_row_def latin1_capital_def)

lemma strip_of_trimmed:
  assumes "t = [] \<or> (\<not> isspace (hd t) \<and> \<not> isspace (last t))"
  shows "strip t = t"
proof (cases "t = []")
  case True
  then show ?thesis by (simp add: strip_def)
next
  case False
  with assms have h: "\<not> isspace (hd t)" and l: "\<not> isspace (last t)" by simp_all
  from h have 1: "dropWhile isspace t = t" by (simp add: dropWhile_eq_self_iff)
  from l False have "\<not> isspace (hd (rev t))" by (simp add: hd_rev)
  then have "dropWhile isspace (rev t) = rev t" by (simp add: dropWhile_eq_self_iff)
  with 1 show ?thesis by (simp add: strip_def)
qed

lemma strip_trimmed:
  "strip s = [] \<or> (\<not> isspace (hd (strip s)) \<and> \<not> isspace (last (strip s)))"
proof (cases "strip s = []")
  case True
  then show ?thesis by simp
next
  case False
  define u where "u = dropWhile isspace s"
  define w where "w = dropWhile isspace (rev u)"
  have s: "strip s = rev w" by (simp add: strip_def u_def w_def)
  with False have w: "w \<noteq> []" by simp
  then have hw: "\<not> isspace (hd w)" unfolding w_def by (rule hd_dropWhile)
  from w have u: "u \<noteq> []" unfolding w_def by auto
  then have hu: "\<not> isspace (hd u)" unfolding u_def by (rule hd_dropWhile)
  have "rev u = takeWhile isspace (rev u) @ w" by (simp add: w_def)
  then have "last (rev u) = last w" using w by (metis last_appendR)
  with u have "last w = hd u" by (simp add: last_rev)
  with hu w hw s show ?thesis by (simp add: hd_rev last_rev)
qed

lemma strip_idem: "strip (strip s) = strip s"
  using strip_trimmed by (rule strip_of_trimmed)

lemma strip_map:
  assumes "\<And>c. isspace (f c) = isspace c"
  shows "strip (map f s) = map f (strip s)"
proof -
  have c: "isspace \<circ> f = isspace" using assms by (simp add: fun_eq_iff)
  show ?thesis
    by (simp add: strip_def dropWhile_map rev_map c)
qed

lemma set_strip: "set (strip s) \<subseteq> set s"
proof -
  have "set (strip s) = set (dropWhile isspace (rev (dropWhile isspace s)))"
    by (simp add: strip_def)
  also have "\<dots> \<subseteq> set (rev (dropWhile isspace s))" by (auto dest: set_dropWhileD)
  also have "\<dots> \<subseteq> set s" by (auto dest: set_dropWhileD)
  finally show ?thesis .
qed

lemma tabled_strip: "tabled s \<Longrightarrow> tabled (strip s)"
  using set_strip [of s] by (auto simp: tabled_def list_all_iff)

text \<open>The normal form of a (stripped, tabled) string, one code point at a time.\<close>

lemma replace_mapped_facts:
  fixes f :: "nat \<Rightarrow> nat"
  defines "f \<equiv> (\<lambda>c. if c = 95 then 45 else c) \<circ> mapped"
  shows "replace_underscore (map mapped x) = map f x"
    and "isspace (f c) = isspace c"
    and "f (f c) = f c"
    and "f c \<noteq> 95"
    and "unicode_row c \<noteq> None \<Longrightarrow> unicode_row (f c) \<noteq> None"
    and "f c < 256 \<Longrightarrow> isupper (f c) = Some False"
    and "c < 256 \<Longrightarrow> f c < 256"
proof -
  have m45: "mapped 45 = 45"
    by (simp add: mapped_def lower_code_point_def unicode_row_def latin1_capital_def)
  have ns: "\<not> isspace 95" "\<not> isspace 45" by (simp_all add: isspace_def)
  show "replace_underscore (map mapped x) = map f x"
    by (simp add: replace_underscore_def f_def)
  show "isspace (f c) = isspace c"
    using ns isspace_mapped [of c] by (cases "mapped c = 95") (simp_all add: f_def)
  show "f (f c) = f c"
    using m45 mapped_idem [of c] by (cases "mapped c = 95") (simp_all add: f_def)
  show "f c \<noteq> 95" by (simp add: f_def)
  show "unicode_row (f c) \<noteq> None" if "unicode_row c \<noteq> None"
    using unicode_row_mapped [OF that]
    by (cases "mapped c = 95") (simp_all add: f_def unicode_row_def)
  show "isupper (f c) = Some False" if "f c < 256"
    using that mapped_not_capital [of c]
    by (cases "mapped c = 95")
       (simp_all add: f_def isupper_def unicode_row_def latin1_capital_def)
  show "f c < 256" if "c < 256"
    using mapped_latin1 [OF that] by (simp add: f_def)
qed

lemma new_ProjectInfo_Inr:
  assumes "new_ProjectInfo (Some n) (Some t) email rid uri = Some (Inr p)"
  shows "tabled (strip n)" and "tabled (strip t)"
    and "name p = replace_underscore (map mapped (strip n))"
    and "team p = replace_underscore (map mapped (strip t))"
    and "name p \<noteq> []" and "team p \<noteq> []"
proof -
  from assms obtain ln lt where ln: "lower (strip n) = Some ln" and lt: "lower (strip t) = Some lt"
    and p: "name p = replace_underscore ln" "team p = replace_underscore lt"
    and ne: "name p \<noteq> []" "team p \<noteq> []"
    by (auto simp: new_ProjectInfo_def identifier_validator_def Suc_le_eq
        split: option.splits if_splits)
  from ln show tn: "tabled (strip n)" by (rule lower_Some_tabled)
  from lt show tt: "tabled (strip t)" by (rule lower_Some_tabled)
  from ln lower_tabled [OF tn] p(1) show "name p = replace_underscore (map mapped (strip n))"
    by simp
  from lt lower_tabled [OF tt] p(2) show "team p = replace_underscore (map mapped (strip t))"
    by simp
  from ne show "name p \<noteq> []" "team p \<noteq> []" by simp_all
qed

lemma identifier_validator_normal:
  assumes "tabled x" and "strip x = x"
  shows "identifier_validator (Some (replace_underscore (map mapped x)))
           = Some (Some (replace_underscore (map mapped x)))"
proof -
  let ?f = "(\<lambda>c. if c = 95 then 45 else c) \<circ> mapped"
  note F = replace_mapped_facts
  have r: "replace_underscore (map mapped y) = map ?f y" for y by (rule F(1))
  have s: "strip (map ?f x) = map ?f x"
    using strip_map [of ?f x] F(2) assms(2) by simp
  have t: "tabled (map ?f x)"
    unfolding tabled_def list_all_iff
  proof
    fix c
    assume "c \<in> set (map ?f x)"
    then obtain d where d: "d \<in> set x" and c: "c = ?f d" by auto
    from d assms(1) have "unicode_row d \<noteq> None" by (simp add: tabled_def list_all_iff)
    then show "unicode_row c \<noteq> None" unfolding c by (rule F(5))
  qed
  have "lower (map ?f x) = Some (map mapped (map ?f x))" using t by (rule lower_tabled)
  moreover have "replace_underscore (map mapped (map ?f x)) = map ?f (map ?f x)" by (rule r)
  moreover have "map ?f (map ?f x) = map ?f x" using F(3) by simp
  ultimately show ?thesis by (simp add: identifier_validator_def r s)
qed

text \<open>
  C9, amended. Construction of a \<^verbatim>\<open>ProjectInfo\<close> from a name and a team (which
  after stripping hold only code points the model has rows for) succeeds when both are
  non-empty after stripping and the email, when given, is non-empty. Every constructed \<^verbatim>\<open>ProjectInfo\<close> stores the
  name and the team stripped, lowercased and with each underscore replaced by a hyphen.
  Its \<^verbatim>\<open>project_id\<close> is team, colon, name; it contains no underscore and no
  uppercase letter below U+0100, and no uppercase letter at all when name and team
  consist of code points below U+0100. The validator returns the stored name and team
  unchanged.
\<close>

theorem ProjectInfo_identifiers_normalized:
  "(tabled (strip n) \<and> tabled (strip t) \<and> strip n \<noteq> [] \<and> strip t \<noteq> [] \<and> email \<noteq> Some []
      \<longrightarrow>
      (\<exists>p. new_ProjectInfo (Some n) (Some t) email rid uri = Some (Inr p)))
   \<and> (\<forall>p. new_ProjectInfo (Some n) (Some t) email rid uri = Some (Inr p) \<longrightarrow>
        map_option replace_underscore (lower (strip n)) = Some (name p)
        \<and> map_option replace_underscore (lower (strip t)) = Some (team p)
        \<and> name p \<noteq> [] \<and> team p \<noteq> []
        \<and> project_id p = team p @ ustr '':'' @ name p
        \<and> 95 \<notin> set (project_id p)
        \<and> (\<forall>c \<in> set (project_id p). c < 256 \<longrightarrow> isupper c = Some False)
        \<and> (list_all (\<lambda>c. c < 256) n \<and> list_all (\<lambda>c. c < 256) t \<longrightarrow>
             (\<forall>c \<in> set (project_id p). isupper c = Some False))
        \<and> identifier_validator (Some (name p)) = Some (Some (name p))
        \<and> identifier_validator (Some (team p)) = Some (Some (team p)))"
proof (intro conjI allI impI)
  assume a: "tabled (strip n) \<and> tabled (strip t) \<and> strip n \<noteq> [] \<and> strip t \<noteq> []
    \<and> email \<noteq> Some []"
  then have "lower (strip n) = Some (map mapped (strip n))"
    "lower (strip t) = Some (map mapped (strip t))"
    by (simp_all add: lower_tabled)
  with a show "\<exists>p. new_ProjectInfo (Some n) (Some t) email rid uri = Some (Inr p)"
    by (cases email)
       (auto simp: new_ProjectInfo_def identifier_validator_def min_length_1_def
          replace_underscore_def Suc_le_eq)
next
  fix p
  assume a: "new_ProjectInfo (Some n) (Some t) email rid uri = Some (Inr p)"
  let ?f = "(\<lambda>c. if c = 95 then 45 else c) \<circ> mapped"
  note I = new_ProjectInfo_Inr [OF a]
  note F = replace_mapped_facts
  have nm: "name p = map ?f (strip n)" and tm: "team p = map ?f (strip t)"
    using I(3,4) F(1) by simp_all
  have colon: "ustr '':'' = [58]" by (simp add: ustr_def)
  have pid: "set (project_id p) = ?f ` set (strip t) \<union> {58} \<union> ?f ` set (strip n)"
    by (simp add: project_id_def colon nm tm Un_commute Un_left_commute insert_commute)
  show "map_option replace_underscore (lower (strip n)) = Some (name p)"
    using lower_tabled [OF I(1)] I(3) by simp
  show "map_option replace_underscore (lower (strip t)) = Some (team p)"
    using lower_tabled [OF I(2)] I(4) by simp
  show "name p \<noteq> []" by (rule I(5))
  show "team p \<noteq> []" by (rule I(6))
  show "project_id p = team p @ ustr '':'' @ name p" by (simp add: project_id_def)
  show "95 \<notin> set (project_id p)" using F(4) by (auto simp: pid simp del: o_apply)
  have up58: "isupper 58 = Some False"
    by (simp add: isupper_def unicode_row_def latin1_capital_def)
  show "\<forall>c \<in> set (project_id p). c < 256 \<longrightarrow> isupper c = Some False"
    using up58 F(6) by (auto simp: pid simp del: o_apply)
  show "\<forall>c \<in> set (project_id p). isupper c = Some False"
    if l: "list_all (\<lambda>c. c < 256) n \<and> list_all (\<lambda>c. c < 256) t"
  proof
    fix c
    assume c: "c \<in> set (project_id p)"
    from l set_strip [of n] set_strip [of t]
    have "\<forall>d \<in> set (strip n) \<union> set (strip t). d < 256" by (auto simp: list_all_iff)
    with c F(7) have "c < 256" by (auto simp: pid simp del: o_apply)
    with c up58 F(6) show "isupper c = Some False" by (auto simp: pid simp del: o_apply)
  qed
  show "identifier_validator (Some (name p)) = Some (Some (name p))"
    using identifier_validator_normal [OF I(1) strip_idem] I(3) by simp
  show "identifier_validator (Some (team p)) = Some (Some (team p))"
    using identifier_validator_normal [OF I(2) strip_idem] I(4) by simp
qed

theorem ProjectInfo_identifiers_normalized_witness:
  "new_ProjectInfo (Some (ustr '' My_Project  '')) (Some (ustr ''Data_Science'')) None None (ustr ''uri'')
     = Some (Inr \<lparr>name = ustr ''my-project'', team = ustr ''data-science'', user_email = None,
                  run_id = None, tracking_uri = ustr ''uri''\<rparr>)
   \<and> project_id \<lparr>name = ustr ''my-project'', team = ustr ''data-science'', user_email = None,
                  run_id = None, tracking_uri = ustr ''uri''\<rparr> = ustr ''data-science:my-project''
   \<and> identifier_validator (Some (ustr ''my-project'')) = Some (Some (ustr ''my-project''))"
proof -
  let ?p = "\<lparr>name = ustr ''my-project'', team = ustr ''data-science'', user_email = None,
             run_id = None, tracking_uri = ustr ''uri''\<rparr>"
  have c: "new_ProjectInfo (Some (ustr '' My_Project  '')) (Some (ustr ''Data_Science'')) None None
             (ustr ''uri'') = Some (Inr ?p)"
    by (simp add: identifier_defs)
  from ProjectInfo_identifiers_normalized
    [of "ustr '' My_Project  ''" "ustr ''Data_Science''" None None "ustr ''uri''"] c
  have "project_id ?p = team ?p @ ustr '':'' @ name ?p
        \<and> identifier_validator (Some (name ?p)) = Some (Some (name ?p))" by blast
  with c show ?thesis by (simp add: ustr_def)
qed

text \<open>
  C9 as first stated fails: \<^verbatim>\<open>str.lower()\<close> leaves the uppercase letter U+03D2 as it
  is, so the project of name U+03D2 and team \<^verbatim>\<open>t\<close> is constructed and its
  \<^verbatim>\<open>project_id\<close>, \<^verbatim>\<open>t:\<close> followed by U+03D2, contains an uppercase letter.
\<close>

theorem project_id_keeps_uppercase_upsilon:
  "new_ProjectInfo (Some [978]) (Some (ustr ''t'')) None None (ustr ''uri'') = Some (Inr upsilon_project)
   \<and> project_id upsilon_project = [116, 58, 978]
   \<and> 978 \<in> set (project_id upsilon_project)
   \<and> isupper 978 = Some True"
  by (simp add: identifier_defs upsilon_project_def project_id_def isupper_def)


subsection \<open>Upload route\<close>

lemma data_received_within:
  "no_raise evs \<Longrightarrow> so_far s + data_size evs \<le> m \<Longrightarrow>
     data_received m evs s =
       (None, s\<lparr>multipart_filename := last_filename evs (multipart_filename s),
                 so_far := so_far s + data_size evs,
                 written := written s + data_size evs\<rparr>)"
proof (induction evs arbitrary: s)
  case Nil
  then show ?case by simp
next
  case (Cons e evs)
  show ?case
  proof (cases e)
    case (PartBegin fn)
    with Cons.prems Cons.IH [of "s\<lparr>multipart_filename := fn\<rparr>"] show ?thesis by simp
  next
    case (PartData n)
    with Cons.prems
      Cons.IH [of "s\<lparr>so_far := so_far s + n, written := written s + n\<rparr>"]
    show ?thesis by (simp add: add.assoc)
  next
    case PartEnd
    with Cons.prems Cons.IH [of s] show ?thesis by simp
  next
    case (Raise x)
    with Cons.prems show ?thesis by simp
  qed
qed

lemma data_received_over:
  "no_raise evs \<Longrightarrow> so_far s \<le> m \<Longrightarrow> m < so_far s + data_size evs \<Longrightarrow>
     \<exists>s'. data_received m evs s = (Some ValidatorError, s') \<and> chunks_read s' = chunks_read s"
proof (induction evs arbitrary: s)
  case Nil
  then show ?case by simp
next
  case (Cons e evs)
  show ?case
  proof (cases e)
    case (PartBegin fn)
    with Cons.prems Cons.IH [of "s\<lparr>multipart_filename := fn\<rparr>"] show ?thesis by simp
  next
    case (PartData n)
    show ?thesis
    proof (cases "m < so_far s + n")
      case True
      with PartData show ?thesis by simp
    next
      case False
      with PartData Cons.prems
        Cons.IH [of "s\<lparr>so_far := so_far s + n, written := written s + n\<rparr>"]
      show ?thesis by (simp add: add.assoc)
    qed
  next
    case PartEnd
    with Cons.prems Cons.IH [of s] show ?thesis by simp
  next
    case (Raise x)
    with Cons.prems show ?thesis by simp
  qed
qed

lemma receive_stream_within:
  "undisturbed items \<Longrightarrow> body_len s + body_size items \<le> MAX_REQUEST_BODY_SIZE \<Longrightarrow>
   so_far s + file_size items \<le> MAX_FILE_SIZE \<Longrightarrow>
     receive_stream items s =
       (None, s\<lparr>body_len := body_len s + body_size items,
                 so_far := so_far s + file_size items,
                 multipart_filename := sent_filename items (multipart_filename s),
                 written := written s + file_size items,
                 chunks_read := chunks_read s + length items\<rparr>)"
proof (induction items arbitrary: s)
  case Nil
  then show ?case by simp
next
  case (Cons item items)
  show ?case
  proof (cases item)
    case ClientDisconnect
    with Cons.prems show ?thesis by simp
  next
    case (Body n evs)
    let ?s1 = "s\<lparr>chunks_read := chunks_read s + 1, body_len := body_len s + n\<rparr>"
    let ?s2 = "?s1\<lparr>multipart_filename := last_filename evs (multipart_filename ?s1),
                     so_far := so_far ?s1 + data_size evs,
                     written := written ?s1 + data_size evs\<rparr>"
    from Cons.prems Body have nr: "no_raise evs" and un: "undisturbed items"
      and b: "body_len s + n + body_size items \<le> MAX_REQUEST_BODY_SIZE"
      and f: "so_far s + data_size evs + file_size items \<le> MAX_FILE_SIZE"
      by (simp_all add: add.assoc)
    from b have bv: "body_validator MAX_REQUEST_BODY_SIZE n (s\<lparr>chunks_read := chunks_read s + 1\<rparr>)
        = (None, ?s1)"
      by (simp add: body_validator_def Let_def)
    from f have "so_far ?s1 + data_size evs \<le> MAX_FILE_SIZE" by simp
    with nr have dr: "data_received MAX_FILE_SIZE evs ?s1 = (None, ?s2)"
      by (rule data_received_within)
    from b f have "receive_stream items ?s2 =
        (None, ?s2\<lparr>body_len := body_len ?s2 + body_size items,
                    so_far := so_far ?s2 + file_size items,
                    multipart_filename := sent_filename items (multipart_filename ?s2),
                    written := written ?s2 + file_size items,
                    chunks_read := chunks_read ?s2 + length items\<rparr>)"
      by (intro Cons.IH [OF un]) simp_all
    with Body bv dr show ?thesis by (simp add: add.assoc)
  qed
qed

lemma receive_stream_over:
  "undisturbed pre \<Longrightarrow> body_len s \<le> MAX_REQUEST_BODY_SIZE \<Longrightarrow> so_far s \<le> MAX_FILE_SIZE \<Longrightarrow>
   MAX_REQUEST_BODY_SIZE < body_len s + body_size pre \<or> MAX_FILE_SIZE < so_far s + file_size pre \<Longrightarrow>
     \<exists>e s'. receive_stream (pre @ rest) s = (e, s') \<and> size_exception e
            \<and> chunks_read s' \<le> chunks_read s + length pre"
proof (induction pre arbitrary: s)
  case Nil
  then show ?case by simp
next
  case (Cons item items)
  show ?case
  proof (cases item)
    case ClientDisconnect
    with Cons.prems show ?thesis by simp
  next
    case (Body n evs)
    let ?s1 = "s\<lparr>chunks_read := chunks_read s + 1, body_len := body_len s + n\<rparr>"
    from Cons.prems Body have nr: "no_raise evs" and un: "undisturbed items" by simp_all
    show ?thesis
    proof (cases "MAX_REQUEST_BODY_SIZE < body_len s + n")
      case True
      with Body show ?thesis by (simp add: body_validator_def Let_def)
    next
      case nb: False
      then have bv: "body_validator MAX_REQUEST_BODY_SIZE n (s\<lparr>chunks_read := chunks_read s + 1\<rparr>)
          = (None, ?s1)"
        by (simp add: body_validator_def Let_def)
      show ?thesis
      proof (cases "MAX_FILE_SIZE < so_far s + data_size evs")
        case True
        then have "MAX_FILE_SIZE < so_far ?s1 + data_size evs" by simp
        moreover from Cons.prems(3) have "so_far ?s1 \<le> MAX_FILE_SIZE" by simp
        ultimately obtain s' where "data_received MAX_FILE_SIZE evs ?s1 = (Some ValidatorError, s')"
          and "chunks_read s' = chunks_read ?s1"
          using nr data_received_over by blast
        with Body bv show ?thesis by simp
      next
        case False
        let ?s2 = "?s1\<lparr>multipart_filename := last_filename evs (multipart_filename ?s1),
                         so_far := so_far ?s1 + data_size evs,
                         written := written ?s1 + data_size evs\<rparr>"
        from False have "so_far ?s1 + data_size evs \<le> MAX_FILE_SIZE" by simp
        with nr have dr: "data_received MAX_FILE_SIZE evs ?s1 = (None, ?s2)"
          by (rule data_received_within)
        from Cons.prems(4) Body
        have "MAX_REQUEST_BODY_SIZE < body_len ?s2 + body_size items
              \<or> MAX_FILE_SIZE < so_far ?s2 + file_size items"
          by (simp add: add.assoc)
        moreover from nb have "body_len ?s2 \<le> MAX_REQUEST_BODY_SIZE" by simp
        moreover from False have "so_far ?s2 \<le> MAX_FILE_SIZE" by simp
        ultimately obtain e s' where
          "receive_stream (items @ rest) ?s2 = (e, s')" "size_exception e"
          "chunks_read s' \<le> chunks_read ?s2 + length items"
          using Cons.IH [OF un, of ?s2] by blast
        with Body bv dr show ?thesis by simp
      qed
    qed
  qed
qed

lemma receive_stream_disconnect:
  "receive_stream (pre @ ClientDisconnect # rest) s =
     (case receive_stream pre s of
        (None, s') \<Rightarrow> (Some ClientDisconnectExc, s')
      | (Some e, s') \<Rightarrow> (Some e, s'))"
proof (induction pre arbitrary: s)
  case Nil
  show ?case by simp
next
  case (Cons item items)
  show ?case
  proof (cases item)
    case ClientDisconnect
    then show ?thesis by simp
  next
    case (Body n evs)
    then show ?thesis by (simp add: Cons.IH split: prod.splits option.splits)
  qed
qed

lemma upload_file_result:
  "filename_header request = Some filename \<Longrightarrow> write_path_header request = Some write_path \<Longrightarrow>
   setup_error request = None \<Longrightarrow>
   receive_stream (stream request) initial_upload_state = (e, s) \<Longrightarrow>
     upload_file request =
       (case e of
          Some (MaxBodySizeException n) \<Rightarrow> Inl (HTTPException 413 (max_body_detail n))
        | Some ValidatorError \<Rightarrow> Inl (HTTPException 413 max_file_detail)
        | Some (OtherException m) \<Rightarrow>
            Inl (HTTPException 500 (''There was an error uploading the file. '' @ m))
        | _ \<Rightarrow> if falsy (multipart_filename s) then Inl (HTTPException 422 ''File is missing'')
               else Inr \<lparr>response_storage_uri = os_path_join write_path filename\<rparr>)"
  by (simp add: upload_file_def upload_try_def HTTP_413_REQUEST_ENTITY_TOO_LARGE_def
      HTTP_422_UNPROCESSABLE_ENTITY_def HTTP_500_INTERNAL_SERVER_ERROR_def
      split: option.splits upload_exception.splits)

lemma upload_file_within:
  assumes h: "filename_header request = Some filename" "write_path_header request = Some write_path"
      "setup_error request = None"
    and u: "undisturbed (stream request)"
    and b: "body_size (stream request) \<le> MAX_REQUEST_BODY_SIZE"
    and f: "file_size (stream request) \<le> MAX_FILE_SIZE"
  shows "upload_file request =
           (if falsy (sent_filename (stream request) None)
            then Inl (HTTPException 422 ''File is missing'')
            else Inr \<lparr>response_storage_uri = os_path_join write_path filename\<rparr>)"
proof -
  from b f have "receive_stream (stream request) initial_upload_state =
      (None, initial_upload_state
         \<lparr>body_len := body_len initial_upload_state + body_size (stream request),
          so_far := so_far initial_upload_state + file_size (stream request),
          multipart_filename := sent_filename (stream request) (multipart_filename initial_upload_state),
          written := written initial_upload_state + file_size (stream request),
          chunks_read := chunks_read initial_upload_state + length (stream request)\<rparr>)"
    by (intro receive_stream_within [OF u]) (simp_all add: initial_upload_state_def)
  from upload_file_result [OF h this] show ?thesis by (simp add: initial_upload_state_def)
qed

lemma upload_file_over:
  assumes h: "filename_header request = Some filename" "write_path_header request = Some write_path"
      "setup_error request = None"
    and s: "stream request = pre @ rest"
    and u: "undisturbed pre"
    and o: "MAX_REQUEST_BODY_SIZE < body_size pre \<or> MAX_FILE_SIZE < file_size pre"
  shows "status_code (upload_file request) = 413
         \<and> chunks_read (snd (upload_try request)) \<le> length pre"
proof -
  from o have "MAX_REQUEST_BODY_SIZE < body_len initial_upload_state + body_size pre
               \<or> MAX_FILE_SIZE < so_far initial_upload_state + file_size pre"
    by (simp add: initial_upload_state_def)
  moreover have "body_len initial_upload_state \<le> MAX_REQUEST_BODY_SIZE"
    "so_far initial_upload_state \<le> MAX_FILE_SIZE" by (simp_all add: initial_upload_state_def)
  ultimately obtain e s' where
    r: "receive_stream (stream request) initial_upload_state = (e, s')"
    and e: "size_exception e"
    and c: "chunks_read s' \<le> chunks_read initial_upload_state + length pre"
    using s receive_stream_over [OF u, of initial_upload_state rest] by auto
  from e have "status_code (upload_file request) = 413"
    by (cases e rule: size_exception.cases) (simp_all add: upload_file_result [OF h r])
  moreover from r c h(3) have "chunks_read (snd (upload_try request)) \<le> length pre"
    by (simp add: upload_try_def initial_upload_state_def)
  ultimately show ?thesis by simp
qed

lemma upload_file_disconnect:
  assumes s: "stream request = pre @ ClientDisconnect # rest"
  shows "upload_file request = upload_file (request\<lparr>stream := pre\<rparr>)"
proof -
  have "upload_try request =
      (case upload_try (request\<lparr>stream := pre\<rparr>) of
         (None, s') \<Rightarrow> (Some ClientDisconnectExc, s') | (Some e, s') \<Rightarrow> (Some e, s'))"
    using s by (simp add: upload_try_def receive_stream_disconnect split: option.splits)
  then show ?thesis
    by (simp add: upload_file_def split: option.splits prod.splits upload_exception.splits)
qed


text \<open>
  C7. The bounds are 50 GiB for the file and 50 GiB + 1 KiB for the body. A request
  without the \<^verbatim>\<open>Filename\<close> or the \<^verbatim>\<open>WritePath\<close> header is answered with 422. An
  undisturbed upload whose file part is at most the maximum file size (so also exactly
  the maximum), in a body within the body bound, succeeds with the storage URI. Once an
  undisturbed prefix of the stream holds more body bytes or more file bytes than the
  bound, the answer is 413 whatever follows, and no chunk after that prefix is read.
\<close>

theorem upload_file_limits:
  "MAX_FILE_SIZE = 50 * 2 ^ 30 \<and> MAX_REQUEST_BODY_SIZE = 50 * 2 ^ 30 + 2 ^ 10
   \<and> (filename_header request = None \<longrightarrow>
        upload_file request = Inl (HTTPException 422 ''Filename header is missing''))
   \<and> (filename_header request = Some filename \<and> write_path_header request = None \<longrightarrow>
        upload_file request = Inl (HTTPException 422 ''No write path provided''))
   \<and> (filename_header request = Some filename \<and> write_path_header request = Some write_path
        \<and> setup_error request = None \<and> undisturbed (stream request)
        \<and> \<not> falsy (sent_filename (stream request) None)
        \<and> file_size (stream request) \<le> MAX_FILE_SIZE
        \<and> body_size (stream request) \<le> MAX_REQUEST_BODY_SIZE \<longrightarrow>
        upload_file request = Inr \<lparr>response_storage_uri = os_path_join write_path filename\<rparr>)
   \<and> (filename_header request = Some filename \<and> write_path_header request = Some write_path
        \<and> setup_error request = None \<and> stream request = pre @ rest \<and> undisturbed pre
        \<and> (MAX_REQUEST_BODY_SIZE < body_size pre \<or> MAX_FILE_SIZE < file_size pre) \<longrightarrow>
        status_code (upload_file request) = 413
        \<and> chunks_read (snd (upload_try request)) \<le> length pre)"
proof (intro conjI impI)
  show "MAX_FILE_SIZE = 50 * 2 ^ 30" by (simp add: MAX_FILE_SIZE_def)
  show "MAX_REQUEST_BODY_SIZE = 50 * 2 ^ 30 + 2 ^ 10"
    by (simp add: MAX_REQUEST_BODY_SIZE_def MAX_FILE_SIZE_def)
next
  assume "filename_header request = None"
  then show "upload_file request = Inl (HTTPException 422 ''Filename header is missing'')"
    by (simp add: upload_file_def HTTP_422_UNPROCESSABLE_ENTITY_def)
next
  assume "filename_header request = Some filename \<and> write_path_header request = None"
  then show "upload_file request = Inl (HTTPException 422 ''No write path provided'')"
    by (simp add: upload_file_def HTTP_422_UNPROCESSABLE_ENTITY_def)
next
  assume a: "filename_header request = Some filename \<and> write_path_header request = Some write_path
        \<and> setup_error request = None \<and> undisturbed (stream request)
        \<and> \<not> falsy (sent_filename (stream request) None)
        \<and> file_size (stream request) \<le> MAX_FILE_SIZE
        \<and> body_size (stream request) \<le> MAX_REQUEST_BODY_SIZE"
  then have "upload_file request =
      (if falsy (sent_filename (stream request) None)
       then Inl (HTTPException 422 ''File is missing'')
       else Inr \<lparr>response_storage_uri = os_path_join write_path filename\<rparr>)"
    by (intro upload_file_within) simp_all
  with a show "upload_file request = Inr \<lparr>response_storage_uri = os_path_join write_path filename\<rparr>"
    by simp
next
  assume a: "filename_header request = Some filename \<and> write_path_header request = Some write_path
        \<and> setup_error request = None \<and> stream request = pre @ rest \<and> undisturbed pre
        \<and> (MAX_REQUEST_BODY_SIZE < body_size pre \<or> MAX_FILE_SIZE < file_size pre)"
  then have r: "status_code (upload_file request) = 413
      \<and> chunks_read (snd (upload_try request)) \<le> length pre"
    by (intro upload_file_over) simp_all
  from r show "status_code (upload_file request) = 413" by simp
  from r show "chunks_read (snd (upload_try request)) \<le> length pre" by simp
qed

theorem upload_file_limits_witness:
  "upload_file (upload_of (one_chunk_upload 200 MAX_FILE_SIZE))
     = Inr \<lparr>response_storage_uri = ''models/v1/model.onnx''\<rparr>
   \<and> status_code (upload_file (upload_of (one_chunk_upload 200 (MAX_FILE_SIZE + 1) @ [Body 10 []]))) = 413
   \<and> chunks_read (snd (upload_try (upload_of (one_chunk_upload 200 (MAX_FILE_SIZE + 1) @ [Body 10 []])))) \<le> 1
   \<and> status_code (upload_file (upload_of (one_chunk_upload 1025 MAX_FILE_SIZE @ [Body 10 []]))) = 413
   \<and> upload_file ((upload_of []) \<lparr>filename_header := None\<rparr>)
       = Inl (HTTPException 422 ''Filename header is missing'')
   \<and> upload_file ((upload_of []) \<lparr>write_path_header := None\<rparr>)
       = Inl (HTTPException 422 ''No write path provided'')"
proof -
  let ?ok = "upload_of (one_chunk_upload 200 MAX_FILE_SIZE)"
  let ?file_over = "upload_of (one_chunk_upload 200 (MAX_FILE_SIZE + 1) @ [Body 10 []])"
  let ?body_over = "upload_of (one_chunk_upload 1025 MAX_FILE_SIZE @ [Body 10 []])"
  have 1: "upload_file ?ok = Inr \<lparr>response_storage_uri = ''models/v1/model.onnx''\<rparr>"
    using upload_file_limits [where request = ?ok and filename = "''model.onnx''"
        and write_path = "''models/v1''"]
    by (simp add: upload_of_def one_chunk_upload_def falsy_def os_path_join_def
        MAX_REQUEST_BODY_SIZE_def)
  have 2: "status_code (upload_file ?file_over) = 413
      \<and> chunks_read (snd (upload_try ?file_over)) \<le> 1"
    using upload_file_limits [where request = ?file_over and filename = "''model.onnx''"
        and write_path = "''models/v1''" and pre = "one_chunk_upload 200 (MAX_FILE_SIZE + 1)"
        and rest = "[Body 10 []]"]
    by (simp add: upload_of_def one_chunk_upload_def)
  have 3: "status_code (upload_file ?body_over) = 413"
    using upload_file_limits [where request = ?body_over and filename = "''model.onnx''"
        and write_path = "''models/v1''" and pre = "one_chunk_upload 1025 MAX_FILE_SIZE"
        and rest = "[Body 10 []]"]
    by (simp add: upload_of_def one_chunk_upload_def MAX_REQUEST_BODY_SIZE_def)
  have 4: "upload_file ((upload_of []) \<lparr>filename_header := None\<rparr>)
      = Inl (HTTPException 422 ''Filename header is missing'')"
    using upload_file_limits [where request = "(upload_of []) \<lparr>filename_header := None\<rparr>"]
    by simp
  have 5: "upload_file ((upload_of []) \<lparr>write_path_header := None\<rparr>)
      = Inl (HTTPException 422 ''No write path provided'')"
    using upload_file_limits [where request = "(upload_of []) \<lparr>write_path_header := None\<rparr>"
        and filename = "''model.onnx''"]
    by (simp add: upload_of_def)
  from 1 2 3 4 5 show ?thesis by simp
qed

text \<open>
  C10. A \<^verbatim>\<open>ClientDisconnect\<close> is swallowed: the answer to a stream that breaks off is
  the answer its received part alone would get. When the part before the disconnect was
  received without exception, the route returns the success body with the storage URI
  if \<^verbatim>\<open>multipart_filename\<close> is set by then, and 422 (file is missing) if it is not;
  the disconnect has no error status of its own.
\<close>

theorem upload_file_client_disconnect:
  "(stream request = pre @ ClientDisconnect # rest \<longrightarrow>
      upload_file request = upload_file (request\<lparr>stream := pre\<rparr>))
   \<and> (filename_header request = Some filename \<and> write_path_header request = Some write_path
        \<and> setup_error request = None \<and> stream request = pre @ ClientDisconnect # rest
        \<and> receive_stream pre initial_upload_state = (None, file_target) \<longrightarrow>
        upload_try request = (Some ClientDisconnectExc, file_target)
        \<and> upload_file request =
            (if falsy (multipart_filename file_target)
             then Inl (HTTPException 422 ''File is missing'')
             else Inr \<lparr>response_storage_uri = os_path_join write_path filename\<rparr>))"
proof (intro conjI impI)
  assume "stream request = pre @ ClientDisconnect # rest"
  then show "upload_file request = upload_file (request\<lparr>stream := pre\<rparr>)"
    by (rule upload_file_disconnect)
next
  assume a: "filename_header request = Some filename \<and> write_path_header request = Some write_path
        \<and> setup_error request = None \<and> stream request = pre @ ClientDisconnect # rest
        \<and> receive_stream pre initial_upload_state = (None, file_target)"
  then have r: "receive_stream (stream request) initial_upload_state
      = (Some ClientDisconnectExc, file_target)"
    by (simp add: receive_stream_disconnect)
  with a show "upload_try request = (Some ClientDisconnectExc, file_target)"
    by (simp add: upload_try_def)
  from a have h: "filename_header request = Some filename"
    "write_path_header request = Some write_path" "setup_error request = None" by simp_all
  from upload_file_result [OF h r]
  show "upload_file request =
            (if falsy (multipart_filename file_target)
             then Inl (HTTPException 422 ''File is missing'')
             else Inr \<lparr>response_storage_uri = os_path_join write_path filename\<rparr>)"
    by simp
qed

theorem upload_file_client_disconnect_witness:
  "upload_file (upload_of ([Body 300 [PartBegin (Some ''model.onnx''), PartData 100]]
                            @ ClientDisconnect # []))
     = Inr \<lparr>response_storage_uri = ''models/v1/model.onnx''\<rparr>
   \<and> upload_file (upload_of ([Body 20 []] @ ClientDisconnect # []))
     = Inl (HTTPException 422 ''File is missing'')"
proof -
  let ?pre = "[Body 300 [PartBegin (Some ''model.onnx''), PartData 100]]"
  let ?t = "\<lparr>body_len = 300, so_far = 100, multipart_filename = Some ''model.onnx'',
             written = 100, chunks_read = 1\<rparr>"
  let ?pre2 = "[Body 20 []]"
  let ?t2 = "\<lparr>body_len = 20, so_far = 0, multipart_filename = None,
             written = 0, chunks_read = 1\<rparr>"
  have r: "receive_stream ?pre initial_upload_state = (None, ?t)"
    by (simp add: initial_upload_state_def body_validator_def MAX_REQUEST_BODY_SIZE_def
        MAX_FILE_SIZE_def)
  have r2: "receive_stream ?pre2 initial_upload_state = (None, ?t2)"
    by (simp add: initial_upload_state_def body_validator_def MAX_REQUEST_BODY_SIZE_def
        MAX_FILE_SIZE_def)
  have h: "filename_header (upload_of (?pre @ ClientDisconnect # [])) = Some ''model.onnx''
      \<and> write_path_header (upload_of (?pre @ ClientDisconnect # [])) = Some ''models/v1''
      \<and> setup_error (upload_of (?pre @ ClientDisconnect # [])) = None
      \<and> stream (upload_of (?pre @ ClientDisconnect # [])) = ?pre @ ClientDisconnect # []
      \<and> receive_stream ?pre initial_upload_state = (None, ?t)"
    using r by (simp add: upload_of_def)
  have 1: "upload_file (upload_of (?pre @ ClientDisconnect # []))
      = Inr \<lparr>response_storage_uri = ''models/v1/model.onnx''\<rparr>"
    using upload_file_client_disconnect [where request = "upload_of (?pre @ ClientDisconnect # [])"
        and filename = "''model.onnx''" and write_path = "''models/v1''" and pre = ?pre
        and rest = "[]" and file_target = ?t, THEN conjunct2, THEN mp, OF h]
    by (simp add: falsy_def os_path_join_def)
  have h2: "filename_header (upload_of (?pre2 @ ClientDisconnect # [])) = Some ''model.onnx''
      \<and> write_path_header (upload_of (?pre2 @ ClientDisconnect # [])) = Some ''models/v1''
      \<and> setup_error (upload_of (?pre2 @ ClientDisconnect # [])) = None
      \<and> stream (upload_of (?pre2 @ ClientDisconnect # [])) = ?pre2 @ ClientDisconnect # []
      \<and> receive_stream ?pre2 initial_upload_state = (None, ?t2)"
    using r2 by (simp add: upload_of_def)
  have 2: "upload_file (upload_of (?pre2 @ ClientDisconnect # []))
      = Inl (HTTPException 422 ''File is missing'')"
    using upload_file_client_disconnect [where request = "upload_of (?pre2 @ ClientDisconnect # [])"
        and filename = "''model.onnx''" and write_path = "''models/v1''" and pre = ?pre2
        and rest = "[]" and file_target = ?t2, THEN conjunct2, THEN mp, OF h2]
    by (simp add: falsy_def)
  from 1 2 show ?thesis by simp
qed


subsection \<open>Polars data interface\<close>

lemma with_suffix_data: "with_suffix data_path ''.parquet'' = Inr data_parquet_path"
  by (simp add: with_suffix_def path_suffix_def data_path_def data_parquet_path_def)

lemma with_suffix_data_parquet: "with_suffix data_parquet_path ''.parquet'' = Inr data_parquet_path"
  by (simp add: with_suffix_def path_suffix_def data_parquet_path_def)

text \<open>
  Where the round trip does hold: when the path given to both calls already carries the
  storage suffix (so that \<open>with_suffix\<close> returns it unchanged), the translations of
  the two libraries undo each other, and \<open>check_data_schema\<close> accepts the frame as it
  is, \<open>load_data\<close> after \<open>save_data\<close> restores the frame.
\<close>

lemma polars_round_trip_on_suffixed_path:
  assumes p: "with_suffix path sfx = Inr path"
    and t: "\<And>ty. polars_type (arrow_type ty) = ty"
    and c: "\<And>fm dt. check_data_schema df fm dt = Inr df"
    and s: "save_data sfx arrow_type \<lparr>self_data = Some df, polars_feature_map = fm0\<rparr> fs path
              = Inr (save_path, self', fs')"
  shows "load_data check_data_schema sfx polars_type self' fs' path = Inr (self'\<lparr>self_data := Some df\<rparr>)"
proof -
  have "map ((\<lambda>(n, ty, vs). (n, polars_type ty, vs)) \<circ> (\<lambda>(n, t, vs). (n, arrow_type t, vs))) cols = cols"
    for cols :: "'a column list"
    using t by (induction cols) auto
  then have "from_arrow polars_type (to_arrow arrow_type df) = df"
    by (simp add: from_arrow_def to_arrow_def)
  with p c s show ?thesis
    by (auto simp: save_data_def load_data_def write_table_def read_parquet_def Let_def)
qed

text \<open>
  C1 at a path without the storage suffix. \<open>save_data\<close> on \<^verbatim>\<open>Path("data")\<close> writes the
  table to \<^verbatim>\<open>data\<close> and returns \<^verbatim>\<open>data.parquet\<close>; \<open>load_data\<close> on the same path
  then reads \<^verbatim>\<open>data.parquet\<close>, which was never written, and fails with
  \<^verbatim>\<open>FileNotFoundError\<close> instead of restoring the frame.
\<close>

theorem polars_load_after_save_fails:
  "save_data ''.parquet'' arrow_type \<lparr>self_data = Some df, polars_feature_map = fm0\<rparr> Map.empty data_path
     = Inr (data_parquet_path,
            \<lparr>self_data = Some df, polars_feature_map = feature_map_of (pl_columns df)\<rparr>,
            [data_path \<mapsto> to_arrow arrow_type df])
   \<and> load_data check_data_schema ''.parquet'' polars_type
        \<lparr>self_data = Some df, polars_feature_map = feature_map_of (pl_columns df)\<rparr>
        [data_path \<mapsto> to_arrow arrow_type df] data_path
     = Inl FileNotFoundError"
proof -
  have "data_parquet_path \<noteq> data_path" by (simp add: data_path_def data_parquet_path_def)
  then show ?thesis
    by (simp add: save_data_def load_data_def with_suffix_data write_table_def read_parquet_def)
qed

end
